theory Spec2Isabelle
  imports Main
begin

section \<open>Python values and string operations\<close>

text \<open>
  The program is Python. Strings are modelled as \<^typ>\<open>string\<close> (ASCII text), and the
  dynamically typed arguments of the methods (\<^verbatim>\<open>None\<close>, \<^verbatim>\<open>str\<close>, \<^verbatim>\<open>int\<close>,
  \<^verbatim>\<open>pathlib.Path\<close>) as the datatype \<open>pyval\<close>. A path is the pair of root and
  remaining components that \<^verbatim>\<open>pathlib.PurePosixPath\<close> keeps.
\<close>

datatype path = PosixPath (root: string) (tail: "string list")

datatype pyval = PNone | PStr string | PInt int | PPath path

text \<open>\<^verbatim>\<open>sep.join(xs)\<close>\<close>

fun str_join :: "string \<Rightarrow> string list \<Rightarrow> string" where
  "str_join sep [] = []"
| "str_join sep [x] = x"
| "str_join sep (x # y # ys) = x @ sep @ str_join sep (y # ys)"

text \<open>\<^verbatim>\<open>s.split(c)\<close> for a separator of one character: never the empty list.\<close>

fun split_on :: "char \<Rightarrow> string \<Rightarrow> string list" where
  "split_on c [] = [[]]"
| "split_on c (x # xs) =
     (if x = c then [] # split_on c xs
      else (case split_on c xs of
              [] \<Rightarrow> [[x]]
            | w # ws \<Rightarrow> (x # w) # ws))"

text \<open>
  \<^verbatim>\<open>s.replace(old, new)\<close>: the occurrences of \<open>old\<close> are replaced from the left and do
  not overlap; an empty \<open>old\<close> matches before every character and at the end.
\<close>

function replace_str :: "string \<Rightarrow> string \<Rightarrow> string \<Rightarrow> string" where
  "replace_str old new [] = (if old = [] then new else [])"
| "replace_str old new (c # cs) =
     (if old = [] then new @ c # replace_str old new cs
      else if take (length old) (c # cs) = old
           then new @ replace_str old new (drop (length old) (c # cs))
           else c # replace_str old new cs)"
  by pat_completeness auto
termination
  by (relation "measure (\<lambda>(old, new, s). length s)") auto

text \<open>\<^verbatim>\<open>sub in s\<close> on strings.\<close>

fun contains :: "string \<Rightarrow> string \<Rightarrow> bool" where
  "contains sub [] = (sub = [])"
| "contains sub (c # cs) = (take (length sub) (c # cs) = sub \<or> contains sub cs)"

text \<open>\<^verbatim>\<open>s.strip(chars)\<close> and \<^verbatim>\<open>s.strip()\<close>, which strips the ASCII whitespace.\<close>

definition strip_chars :: "string \<Rightarrow> string \<Rightarrow> string" where
  "strip_chars chars s =
     rev (dropWhile (\<lambda>c. c \<in> set chars) (rev (dropWhile (\<lambda>c. c \<in> set chars) s)))"

definition whitespace :: string where
  "whitespace = [CHR '' '', CHR 0x09, CHR 0x0A, CHR 0x0B, CHR 0x0C, CHR 0x0D,
                 CHR 0x1C, CHR 0x1D, CHR 0x1E, CHR 0x1F]"

definition strip :: "string \<Rightarrow> string" where
  "strip s = strip_chars whitespace s"

text \<open>\<^verbatim>\<open>s.lower()\<close> on ASCII text.\<close>

definition lower_char :: "char \<Rightarrow> char" where
  "lower_char c =
     (case map_of (zip ''ABCDEFGHIJKLMNOPQRSTUVWXYZ'' ''abcdefghijklmnopqrstuvwxyz'') c of
        None \<Rightarrow> c | Some d \<Rightarrow> d)"

definition lower :: "string \<Rightarrow> string" where
  "lower s = map lower_char s"

text \<open>\<^verbatim>\<open>s.isnumeric()\<close> on ASCII text: not empty, and decimal digits only.\<close>

definition isnumeric :: "string \<Rightarrow> bool" where
  "isnumeric s = (s \<noteq> [] \<and> list_all (\<lambda>c. c \<in> set ''0123456789'') s)"

text \<open>\<^verbatim>\<open>str(n)\<close> for an integer.\<close>

fun str_of_nat :: "nat \<Rightarrow> string" where
  "str_of_nat n =
     (if n < 10 then [''0123456789'' ! n]
      else str_of_nat (n div 10) @ [''0123456789'' ! (n mod 10)])"

declare str_of_nat.simps [simp del]

definition str_of_int :: "int \<Rightarrow> string" where
  "str_of_int i = (if i < 0 then ''-'' @ str_of_nat (nat (- i)) else str_of_nat (nat i))"

subsection \<open>pathlib\<close>

text \<open>
  \<^verbatim>\<open>Path(s)\<close>: the root is \<^verbatim>\<open>/\<close> for one or for three and more leading slashes,
  \<^verbatim>\<open>//\<close> for exactly two, and empty otherwise; empty components and \<^verbatim>\<open>.\<close> are
  dropped.
\<close>

definition path_root :: "string \<Rightarrow> string" where
  "path_root s =
     (if take 1 s \<noteq> ''/'' then ''''
      else if take 1 (drop 1 s) \<noteq> ''/'' \<or> take 1 (drop 2 s) = ''/'' then ''/''
      else ''//'')"

definition Path :: "string \<Rightarrow> path" where
  "Path s = PosixPath (path_root s) (filter (\<lambda>x. x \<noteq> [] \<and> x \<noteq> ''.'') (split_on CHR ''/'' s))"

text \<open>\<^verbatim>\<open>str(p)\<close>\<close>

definition path_str :: "path \<Rightarrow> string" where
  "path_str p =
     (if root p = [] \<and> tail p = [] then ''.'' else root p @ str_join ''/'' (tail p))"

text \<open>\<^verbatim>\<open>p.parents\<close>: the path without its last component, then without its last two, ...\<close>

definition parents :: "path \<Rightarrow> path list" where
  "parents p = map (\<lambda>n. PosixPath (root p) (take n (tail p))) (rev [0 ..< length (tail p)])"

text \<open>\<^verbatim>\<open>p.parent\<close>, \<^verbatim>\<open>p.name\<close> and \<^verbatim>\<open>p / name\<close>\<close>

definition parent :: "path \<Rightarrow> path" where
  "parent p = PosixPath (root p) (butlast (tail p))"

definition path_name :: "path \<Rightarrow> string" where
  "path_name p = (if tail p = [] then [] else last (tail p))"

definition path_join :: "path \<Rightarrow> string \<Rightarrow> path" where
  "path_join p s =
     (let q = Path s in if root q \<noteq> [] then q else PosixPath (root p) (tail p @ tail q))"

subsection \<open>Values\<close>

text \<open>\<^verbatim>\<open>str(v)\<close>, which is also how an f-string renders \<open>v\<close>, and \<^verbatim>\<open>bool(v)\<close>.\<close>

fun py_str :: "pyval \<Rightarrow> string" where
  "py_str PNone = ''None''"
| "py_str (PStr s) = s"
| "py_str (PInt i) = str_of_int i"
| "py_str (PPath p) = path_str p"

fun truthy :: "pyval \<Rightarrow> bool" where
  "truthy PNone = False"
| "truthy (PStr s) = (s \<noteq> [])"
| "truthy (PInt i) = (i \<noteq> 0)"
| "truthy (PPath p) = True"

text \<open>The exceptions the program raises, with their messages.\<close>

datatype error =
    PyException string
  | PyException2 string path
  | PyTypeError string
  | PyAttributeError string
  | PyUnboundLocalError
  | PyEOFError
  | PyRecursionError
  | PyOSError string
  | PySystemExit nat

datatype outcome = Done | Raised error

section \<open>Step\<close>

record step =
  expectation :: string
  action :: string
  mode :: string
  quote :: string

text \<open>\<^verbatim>\<open>Step.__init__(expect, input, mode="sftp", quote='"')\<close>\<close>

definition Step :: "pyval \<Rightarrow> pyval \<Rightarrow> string \<Rightarrow> string \<Rightarrow> step" where
  \<open>Step expect' input mode' quote' =
     \<lparr> expectation =
         (if quote' = ''"'' then ''expect "'' @ py_str expect' @ ''"''
          else ''expect '' @ [CHR 0x5C, CHR 0x27] @ py_str expect' @ [CHR 0x5C, CHR 0x27]),
       action = ''send "'' @ py_str input @ ''\<newline>"'',
       mode = mode',
       quote = quote' \<rparr>\<close>

text \<open>\<^verbatim>\<open>Step.__repr__(sep)\<close>\<close>

definition step_repr :: "step \<Rightarrow> string \<Rightarrow> string" where
  "step_repr st sep = expectation st @ sep @ action st @ sep"

section \<open>Scripter\<close>

text \<open>
  The attributes that credential resolution reads and writes are set first in
  \<^verbatim>\<open>__init__\<close>; the others are assigned after it. The record of the former is
  extended by the latter, so that the credential methods apply to both.
\<close>

record creds =
  username :: pyval
  password :: pyval
  group :: pyval
  site :: pyval
  config :: "path option"

record scripter = creds +
  mode :: string
  expect :: pyval
  quote :: "string option"
  "open" :: string
  entry :: string
  close :: string
  actions :: "step list"
  pw_steps :: "step list"

text \<open>
  A method mutates the object and returns or raises; the model returns the outcome
  together with the object as the method leaves it, so that a mutation made before a
  raise is kept, as in Python.
\<close>

text \<open>\<^verbatim>\<open>add_step(input, expect=None)\<close>\<close>

definition add_step :: "scripter \<Rightarrow> pyval \<Rightarrow> pyval \<Rightarrow> scripter" where
  \<open>add_step s input expect' =
     (let e = (if \<not> truthy expect' then expect s else expect')
      in s\<lparr>actions := actions s @ [Step e input ''sftp'' ''"'']\<rparr>)\<close>

text \<open>\<^verbatim>\<open>basic_step(*commands, expect=None)\<close>\<close>

definition basic_step :: "scripter \<Rightarrow> pyval list \<Rightarrow> pyval \<Rightarrow> scripter" where
  "basic_step s commands expect' =
     (if commands \<noteq> []
      then add_step s (PStr (str_join '' '' (map py_str (filter truthy commands)))) expect'
      else s)"

text \<open>\<^verbatim>\<open>is_empty()\<close> returns \<^verbatim>\<open>bool(self.actions)\<close>.\<close>

definition is_empty :: "scripter \<Rightarrow> bool" where
  "is_empty s = (actions s \<noteq> [])"

text \<open>\<^verbatim>\<open>get_steps(step_list=[], sep="\n")\<close>\<close>

definition get_steps :: "scripter \<Rightarrow> step list \<Rightarrow> string \<Rightarrow> string" where
  "get_steps s step_list sep =
     (let sl = (if step_list = [] then actions s else step_list)
      in concat (map (\<lambda>st. step_repr st sep) sl))"

text \<open>\<^verbatim>\<open>__full_command()\<close>\<close>

definition full_command :: "scripter \<Rightarrow> string" where
  "full_command s =
     open s @ entry s @ get_steps s (pw_steps s) ''\<newline>'' @ get_steps s [] ''\<newline>'' @ close s"

text \<open>\<^verbatim>\<open>get_actions()\<close>, the generator as the list of what it yields.\<close>

definition get_actions :: "scripter \<Rightarrow> string list" where
  \<open>get_actions s =
     map (\<lambda>st. replace_str ''"'' '''' (replace_str ''send "'' '''' (strip_chars '''' (action st))))
       (actions s)\<close>

text \<open>\<^verbatim>\<open>clear()\<close>\<close>

definition clear :: "scripter \<Rightarrow> scripter" where
  "clear s = s\<lparr>actions := []\<rparr>"

text \<open>\<^verbatim>\<open>pwd()\<close> and \<^verbatim>\<open>ls(dir=None)\<close>\<close>

definition pwd :: "scripter \<Rightarrow> scripter" where
  "pwd s = add_step s (PStr ''pwd'') PNone"

definition ls :: "scripter \<Rightarrow> pyval \<Rightarrow> scripter" where
  "ls s dir = basic_step s [PStr ''ls -la'', (if \<not> truthy dir then PStr ''.'' else dir)] PNone"

text \<open>\<^verbatim>\<open>cwd(dir, local=False)\<close>\<close>

definition cwd :: "scripter \<Rightarrow> pyval \<Rightarrow> bool \<Rightarrow> outcome \<times> scripter" where
  "cwd s dir local =
     (if local then
        (if mode s = ''sftp'' then (Done, basic_step s [PStr ''lcd'', dir] PNone)
         else (Raised (PyException ''lcd only works with sftp''), s))
      else (Done, basic_step s [PStr ''cd'', dir] PNone))"

text \<open>\<^verbatim>\<open>set_permissions(files, group=None, octal="0664")\<close>\<close>

datatype files_arg = OneFile string | FileList "pyval list"

fun check_numeric :: "(string \<times> pyval) list \<Rightarrow> error option" where
  "check_numeric [] = None"
| "check_numeric ((n, x) # rest) =
     (case (case x of PInt i \<Rightarrow> PStr (str_of_int i) | _ \<Rightarrow> x) of
        PStr t \<Rightarrow>
          (if \<not> isnumeric t \<and> t \<noteq> []
           then Some (PyTypeError (''Invalid input ('' @ t @ '', type:<class '' @ [CHR 0x27] @ ''str''
                  @ [CHR 0x27] @ ''>) for '' @ n @ ''. Numeric values must be used over sftp.''))
           else check_numeric rest)
      | _ \<Rightarrow> check_numeric rest)"

fun permission_steps :: "scripter \<Rightarrow> pyval list \<Rightarrow> pyval \<Rightarrow> scripter" where
  "permission_steps s [] octal = s"
| "permission_steps s (file # files) octal =
     (let s1 = basic_step s [PStr ''chmod'', octal, file] PNone;
          s2 = (if truthy (group s1) then basic_step s1 [PStr ''chgrp'', group s1, file] PNone
                else s1)
      in permission_steps s2 files octal)"

definition set_permissions :: "scripter \<Rightarrow> files_arg \<Rightarrow> pyval \<Rightarrow> pyval \<Rightarrow> outcome \<times> scripter" where
  "set_permissions s files group' octal =
     (let files1 = (case files of OneFile f \<Rightarrow> [PStr f] | FileList fs \<Rightarrow> fs);
          s1 = (if \<not> truthy (group s) \<and> group' \<noteq> PStr [] then s\<lparr>group := group'\<rparr> else s)
      in case (if mode s1 = ''sftp''
               then check_numeric [(''group'', group s1), (''octal'', octal)] else None) of
           Some e \<Rightarrow> (Raised e, s1)
         | None \<Rightarrow> (Done, permission_steps s1 files1 octal))"

text \<open>\<^verbatim>\<open>transfer(trans_type, file, outdir=None, local=False, new_name=None, options=[])\<close>\<close>

definition transfer ::
  "scripter \<Rightarrow> string \<Rightarrow> pyval \<Rightarrow> pyval \<Rightarrow> bool \<Rightarrow> pyval \<Rightarrow> string list \<Rightarrow> outcome \<times> scripter" where
  "transfer s trans_type file outdir local new_name options =
     (if mode s \<noteq> ''sftp''
      then (Raised (PyException ([CHR 0x27] @ trans_type @ [CHR 0x27]
              @ '' can only be used with mode='' @ [CHR 0x27] @ ''sftp'' @ [CHR 0x27])), s)
      else
        (case (if truthy outdir then cwd s outdir local else (Done, s)) of
           (Raised e, s1) \<Rightarrow> (Raised e, s1)
         | (Done, s1) \<Rightarrow>
             (if options \<noteq> []
              then (Done, basic_step s1 [PStr trans_type, PStr (''-'' @ concat options), file,
                                        new_name, PStr ''\<newline>''] PNone)
              else (Done, basic_step s1 [PStr trans_type, file, new_name, PStr ''\<newline>''] PNone))))"

text \<open>\<^verbatim>\<open>get(file, outdir=None, new_name=None, options=[])\<close>\<close>

definition get :: "scripter \<Rightarrow> pyval \<Rightarrow> pyval \<Rightarrow> pyval \<Rightarrow> string list \<Rightarrow> outcome \<times> scripter" where
  "get s file outdir new_name options = transfer s ''get'' file outdir True new_name options"

text \<open>
  \<^verbatim>\<open>Path(v)\<close> for an argument: a string is parsed, a path is itself, and \<^verbatim>\<open>None\<close> or a
  number raises TypeError.
\<close>

fun as_path :: "pyval \<Rightarrow> path option" where
  "as_path (PStr s) = Some (Path s)"
| "as_path (PPath p) = Some p"
| "as_path _ = None"

text \<open>\<^verbatim>\<open>put(file, outdir=None, new_name=None, options=[], set_permissions=False)\<close>\<close>

definition put ::
  "scripter \<Rightarrow> pyval \<Rightarrow> pyval \<Rightarrow> pyval \<Rightarrow> string list \<Rightarrow> bool \<Rightarrow> outcome \<times> scripter" where
  "put s file outdir new_name options set_perm =
     (let s1 = (if truthy outdir then add_step s (PStr (''mkdir '' @ py_str outdir)) PNone else s)
      in case transfer s1 ''put'' file outdir False new_name options of
           (Raised e, s2) \<Rightarrow> (Raised e, s2)
         | (Done, s2) \<Rightarrow>
             (if set_perm then
                (case (as_path outdir, as_path file) of
                   (Some d, Some f) \<Rightarrow>
                     set_permissions s2 (OneFile (path_str (path_join d (path_name f))))
                       PNone (PStr ''0664'')
                 | _ \<Rightarrow> (Raised (PyTypeError ''expected str, bytes or os.PathLike object''), s2))
              else (Done, s2)))"

section \<open>The world outside the program\<close>

text \<open>
  The file system maps a path to a regular file with its text or to a directory; a path
  without components (\<^verbatim>\<open>.\<close> or the root) is always a directory. \<open>home\<close> is
  \<^verbatim>\<open>Path.home()\<close> and \<open>resolve\<close> is \<^verbatim>\<open>Path.resolve\<close>. \<open>answers\<close> holds what
  the user will type, one entry for each \<^verbatim>\<open>input\<close> or \<^verbatim>\<open>getpass\<close>; \<open>stdout\<close>
  records what is printed and every prompt; \<open>executed\<close> records what is given to
  \<^verbatim>\<open>os.system\<close>.
\<close>

datatype node = File string | Dir

datatype printed = PrintStr string | PrintTuple nat string | Prompt string | PromptPass string

record world =
  home :: path
  resolve :: "path \<Rightarrow> path"
  fs :: "path \<Rightarrow> node option"
  answers :: "string list"
  stdout :: "printed list"
  executed :: "string list"

definition print :: "world \<Rightarrow> string \<Rightarrow> world" where
  "print w s = w\<lparr>stdout := stdout w @ [PrintStr s]\<rparr>"

text \<open>\<^verbatim>\<open>input(prompt)\<close> and \<^verbatim>\<open>getpass(prompt)\<close>; no answer left is EOFError.\<close>

definition py_input :: "world \<Rightarrow> string \<Rightarrow> string option \<times> world" where
  "py_input w prompt =
     (case answers w of
        [] \<Rightarrow> (None, w\<lparr>stdout := stdout w @ [Prompt prompt]\<rparr>)
      | a # rest \<Rightarrow> (Some a, w\<lparr>stdout := stdout w @ [Prompt prompt], answers := rest\<rparr>))"

definition getpass :: "world \<Rightarrow> string \<Rightarrow> string option \<times> world" where
  "getpass w prompt =
     (case answers w of
        [] \<Rightarrow> (None, w\<lparr>stdout := stdout w @ [PromptPass prompt]\<rparr>)
      | a # rest \<Rightarrow> (Some a, w\<lparr>stdout := stdout w @ [PromptPass prompt], answers := rest\<rparr>))"

definition node_at :: "world \<Rightarrow> path \<Rightarrow> node option" where
  "node_at w p = (if tail p = [] then Some Dir else fs w p)"

text \<open>\<^verbatim>\<open>p.exists()\<close>\<close>

definition exists :: "world \<Rightarrow> path \<Rightarrow> bool" where
  "exists w p = (node_at w p \<noteq> None)"

definition is_file :: "world \<Rightarrow> path \<Rightarrow> bool" where
  "is_file w p = (case node_at w p of Some (File c) \<Rightarrow> True | _ \<Rightarrow> False)"

text \<open>
  \<^verbatim>\<open>p.mkdir(exist_ok=True, parents=True)\<close>: \<open>p\<close> and its missing ancestors become
  directories; it fails when \<open>p\<close> or an ancestor is a regular file.
\<close>

definition mkdir_parents :: "world \<Rightarrow> path \<Rightarrow> world option" where
  "mkdir_parents w p =
     (if list_ex (is_file w) (p # parents p) then None
      else Some (w\<lparr>fs := foldr (\<lambda>d f. f(d \<mapsto> Dir)) (p # parents p) (fs w)\<rparr>))"

text \<open>
  The lines a text file yields when iterated: the three line endings count as one, and
  the text after the last one is a line when it is not empty. The line terminator itself
  is left out, since every line is stripped before use.
\<close>

definition file_lines :: "string \<Rightarrow> string list" where
  "file_lines content =
     (let ls = split_on CHR 0x0A
                 (replace_str [CHR 0x0D] [CHR 0x0A]
                    (replace_str [CHR 0x0D, CHR 0x0A] [CHR 0x0A] content))
      in if last ls = [] then butlast ls else ls)"

section \<open>Credentials\<close>

text \<open>Sequencing of two steps of a method: a raise in the first one skips the second.\<close>

definition and_then :: "outcome \<times> 's \<Rightarrow> ('s \<Rightarrow> outcome \<times> 's) \<Rightarrow> outcome \<times> 's" where
  "and_then r f = (case r of (Raised e, st) \<Rightarrow> (Raised e, st) | (Done, st) \<Rightarrow> f st)"

text \<open>\<^verbatim>\<open>write_credentials()\<close>\<close>

definition write_credentials :: "'a creds_scheme \<Rightarrow> world \<Rightarrow> outcome \<times> 'a creds_scheme \<times> world" where
  "write_credentials c w =
     (case config c of
        None \<Rightarrow> (Raised (PyAttributeError ''NoneType''), c, w)
      | Some cfg \<Rightarrow>
          (case mkdir_parents w (parent cfg) of
             None \<Rightarrow> (Raised (PyOSError ''FileExistsError''), c, w)
           | Some w1 \<Rightarrow>
               (if node_at w1 cfg = Some Dir then (Raised (PyOSError ''IsADirectoryError''), c, w1)
                else (Done, c,
                      w1\<lparr>fs := (fs w1)(cfg \<mapsto> File (''username='' @ py_str (username c) @ ''\<newline>''
                                              @ ''password='' @ py_str (password c) @ ''\<newline>''))\<rparr>))))"

text \<open>\<^verbatim>\<open>_get_credential_if_present(line, cred)\<close>\<close>

definition get_credential_if_present :: "'a creds_scheme \<Rightarrow> string \<Rightarrow> string \<Rightarrow> 'a creds_scheme" where
  "get_credential_if_present c line cred =
     (if contains cred (lower line)
      then (let attr = strip (last (split_on CHR ''='' line))
            in if cred = ''password'' then c\<lparr>password := PStr attr\<rparr>
               else if cred = ''username'' then c\<lparr>username := PStr attr\<rparr>
               else if cred = ''group'' then c\<lparr>group := PStr attr\<rparr>
               else if cred = ''site'' then c\<lparr>site := PStr attr\<rparr>
               else c)
      else c)"

text \<open>\<^verbatim>\<open>read_credentials(config)\<close>\<close>

definition read_credentials :: "'a creds_scheme \<Rightarrow> world \<Rightarrow> path \<Rightarrow> outcome \<times> 'a creds_scheme \<times> world" where
  "read_credentials c w cfg =
     (case node_at w cfg of
        None \<Rightarrow> (Raised (PyOSError ''FileNotFoundError''), c, w)
      | Some Dir \<Rightarrow> (Raised (PyOSError ''IsADirectoryError''), c, w)
      | Some (File content) \<Rightarrow>
          (Done,
           foldl (\<lambda>c1 line.
                    foldl (\<lambda>c2 cred. get_credential_if_present c2 (strip line) cred) c1
                      [''username'', ''password'', ''group'', ''site''])
             c (file_lines content),
           w))"

text \<open>
  \<^verbatim>\<open>request_credentials(reset_user=False, reset_pass=False)\<close>. The method calls itself
  when the user rejects the username, and \<^verbatim>\<open>get_credentials\<close> calls itself after
  reading the file: \<open>depth\<close> is the number of nested calls the interpreter still
  allows, and RecursionError is raised when it is used up.
\<close>

fun request_credentials ::
  "nat \<Rightarrow> 'a creds_scheme \<Rightarrow> world \<Rightarrow> bool \<Rightarrow> bool \<Rightarrow> outcome \<times> 'a creds_scheme \<times> world" where
  "request_credentials 0 c w reset_user reset_pass = (Raised PyRecursionError, c, w)"
| "request_credentials (Suc depth) c w reset_user reset_pass =
     and_then
       (and_then
          (and_then
             (let w0 = print w ''Collecting your cluster login information to speed up future interactions:''
              in if \<not> truthy (username c) \<or> reset_user then
                   (case py_input w0 ''Username:\<newline>> '' of
                      (None, w1) \<Rightarrow> (Raised PyEOFError, c, w1)
                    | (Some u, w1) \<Rightarrow>
                        (case py_input (print w1 (''The username you entered is: '' @ u))
                                ''Is this correct? (Y/n)\<newline>> '' of
                           (None, w2) \<Rightarrow> (Raised PyEOFError, c\<lparr>username := PStr u\<rparr>, w2)
                         | (Some user_ok, w2) \<Rightarrow>
                             (if lower (strip user_ok) = ''n''
                              then request_credentials depth (c\<lparr>username := PStr u\<rparr>) w2 True False
                              else (Done, c\<lparr>username := PStr u\<rparr>, w2))))
                 else (Done, c, w0))
             (\<lambda>(c1, w1).
                if \<not> truthy (password c1) \<or> reset_pass then
                  (case getpass w1 ''Password:\<newline>> '' of
                     (None, w2) \<Rightarrow> (Raised PyEOFError, c1, w2)
                   | (Some p, w2) \<Rightarrow> (Done, c1\<lparr>password := PStr p\<rparr>, w2))
                else (Done, c1, w1)))
          (\<lambda>(c1, w1).
             if \<not> truthy (group c1) then
               (case py_input w1 (''Enter a group name (or octal - must be octal for sftp) ''
                                  @ ''for permissions-setting or skip by hitting enter:\<newline>> '') of
                  (None, w2) \<Rightarrow> (Raised PyEOFError, c1, w2)
                | (Some g, w2) \<Rightarrow> (Done, c1\<lparr>group := PStr g\<rparr>, w2))
             else (Done, c1, w1)))
       (\<lambda>(c1, w1).
          if \<not> truthy (site c1) then
            (case py_input w1 (''Enter the site you'' @ [CHR 0x27] @ ''re trying to reach:\<newline>> '') of
               (None, w2) \<Rightarrow> (Raised PyEOFError, c1, w2)
             | (Some st, w2) \<Rightarrow> (Done, c1\<lparr>site := PStr st\<rparr>, w2))
          else (Done, c1, w1))"

text \<open>
  The first statement of \<^verbatim>\<open>get_credentials\<close>: the home-directory shorthand of a given
  path is expanded, and the default path is taken when none is given.
\<close>

definition expand_config :: "'a creds_scheme \<Rightarrow> world \<Rightarrow> outcome \<times> 'a creds_scheme \<times> world" where
  "expand_config c w =
     (case config c of
        Some cfg \<Rightarrow>
          (if Path ''~'' \<in> set (parents cfg) then
             (if take 1 (path_str cfg) \<noteq> ''~''
              then (Raised (PyException2 ''Config path looks weird:'' cfg), c, w)
              else (Done,
                    c\<lparr>config := Some (Path (replace_str ''~'' (path_str (home w)) (path_str cfg)))\<rparr>,
                    w))
           else (Done, c, w))
      | None \<Rightarrow>
          (Done,
           c\<lparr>config := Some (resolve w (path_join (home w) ''.pooPatrol/hpc_config.txt''))\<rparr>,
           w))"

text \<open>
  \<^verbatim>\<open>get_credentials(save=True, overwrite=False, headless=False)\<close>. It returns the pair
  of \<^verbatim>\<open>self.username\<close> and the password, which are read off the object here.
\<close>

fun get_credentials ::
  "nat \<Rightarrow> 'a creds_scheme \<Rightarrow> world \<Rightarrow> bool \<Rightarrow> bool \<Rightarrow> bool \<Rightarrow> outcome \<times> 'a creds_scheme \<times> world" where
  "get_credentials 0 c w save overwrite headless = (Raised PyRecursionError, c, w)"
| "get_credentials (Suc depth) c w save overwrite headless =
     and_then
       (and_then (expand_config c w)
          (\<lambda>(c1, w1).
             if \<not> truthy (username c1) \<or> \<not> truthy (password c1) then
               (case config c1 of
                  None \<Rightarrow> (Raised (PyAttributeError ''NoneType''), c1, w1)
                | Some cfg \<Rightarrow>
                    (if exists w1 cfg then
                       and_then (read_credentials c1 w1 cfg)
                         (\<lambda>(c2, w2). get_credentials depth c2 w2 True False False)
                     else if headless then
                       (Raised (PySystemExit 1), c1,
                        print w1 (''Config file '' @ [CHR 0x27] @ path_str cfg @ [CHR 0x27]
                          @ '' is missing variables\<newline>It should look like this:\<newline>''
                          @ ''username=youruser\<newline>password=yourpass\<newline>\<newline>''
                          @ ''Or you need to pass in a username and/or password at Scripter instantiation.''))
                     else
                       request_credentials depth c1
                         (print w1 (''Requested config not found ('' @ path_str cfg
                            @ '').\<newline>Gathering credentials...''))
                         False False))
             else (Done, c1, w1)))
       (\<lambda>(c1, w1).
          case config c1 of
            None \<Rightarrow> (Raised (PyAttributeError ''NoneType''), c1, w1)
          | Some cfg \<Rightarrow>
              (if save \<and> \<not> exists w1 cfg \<or> overwrite
               then write_credentials c1 (print w1 (''Writing out credentials to '' @ path_str cfg))
               else (Done, c1, w1)))"

section \<open>Construction, preview and run\<close>

text \<open>
  \<^verbatim>\<open>Scripter.__init__(username, password, site, mode, group, config, site_type)\<close>;
  \<^verbatim>\<open>site_type\<close> is not used by the method and is left out.
\<close>

definition Scripter ::
  "nat \<Rightarrow> world \<Rightarrow> pyval \<Rightarrow> pyval \<Rightarrow> pyval \<Rightarrow> string \<Rightarrow> pyval \<Rightarrow> pyval \<Rightarrow> (error + scripter) \<times> world" where
  \<open>Scripter depth w username' password' site' mode' group' config' =
     (case (if truthy config' then map_option Some (as_path config') else Some None) of
        None \<Rightarrow> (Inl (PyTypeError ''expected str, bytes or os.PathLike object''), w)
      | Some cfg \<Rightarrow>
          (case get_credentials depth
                  \<lparr>username = username', password = password', group = group', site = site',
                   config = cfg\<rparr> w True False False of
             (Raised e, c, w1) \<Rightarrow> (Inl e, w1)
           | (Done, c, w1) \<Rightarrow>
               (Inr \<lparr>username = username c, password = password c, group = group c,
                     site = site c, config = config c,
                     mode = mode',
                     expect = (if mode' = ''sftp'' then PStr ''sftp>'' else username c),
                     quote = (if mode' = ''sftp'' then None else Some [CHR 0x27]),
                     open = ''expect << !\<newline>set timeout -1\<newline>spawn '',
                     entry = mode' @ '' '' @ py_str (username c) @ ''@'' @ py_str (site c)
                             @ ''\<newline>'',
                     close = ''expect eof\<newline>!\<newline>'',
                     actions = [],
                     pw_steps = [Step (PStr ''Password:'') (password c) ''sftp'' ''"'',
                                 Step (PStr ''Passcode or option (1-3):'') (PInt 1) ''sftp'' ''"'']\<rparr>,
                w1)))\<close>

text \<open>
  \<^verbatim>\<open>preview_steps()\<close>: the heading, then each pair of \<^verbatim>\<open>enumerate\<close> is printed as
  it is.
\<close>

definition preview_steps :: "scripter \<Rightarrow> world \<Rightarrow> world" where
  "preview_steps s w =
     foldl (\<lambda>w1 (i, a). w1\<lparr>stdout := stdout w1 @ [PrintTuple i a]\<rparr>)
       (print w ''\<newline>Command preview:'')
       (enumerate 0 (get_actions s))"

text \<open>
  \<^verbatim>\<open>run()\<close>: with a mode that is neither sftp nor ssh the local variable \<^verbatim>\<open>end\<close> is
  not bound when it is read.
\<close>

definition run :: "scripter \<Rightarrow> world \<Rightarrow> outcome \<times> scripter \<times> world" where
  "run s w =
     (case (if mode s = ''sftp'' then Some ''quit''
            else if mode s = ''ssh'' then Some ''exit'' else None) of
        None \<Rightarrow> (Raised PyUnboundLocalError, s, w)
      | Some end' \<Rightarrow>
          (let s1 = add_step s (PStr end') PNone
           in (Done, s1, w\<lparr>executed := executed w @ [full_command s1]\<rparr>)))"

section \<open>Values that sftp mode rejects\<close>

text \<open>
  The values at which the validation of \<^verbatim>\<open>set_permissions\<close> raises, stated on their own: a
  string that is not empty and not numeric, and a negative integer, whose text starts with
  a minus sign. \<^verbatim>\<open>None\<close>, the empty string and a path pass.
\<close>

fun non_numeric :: "pyval \<Rightarrow> bool" where
  "non_numeric (PStr t) = (t \<noteq> [] \<and> \<not> isnumeric t)"
| "non_numeric (PInt i) = (i < 0)"
| "non_numeric PNone = False"
| "non_numeric (PPath p) = False"

section \<open>Concrete sessions\<close>

text \<open>
  A world whose only file is a two-line config file, and the objects that construction
  yields there in each mode; they serve as the concrete inputs of the examples below.
\<close>

definition example_world :: world where
  "example_world =
     \<lparr>home = Path ''/home/alice'', resolve = (\<lambda>p. p),
      fs = [Path ''/home/alice/hpc_config.txt'' \<mapsto> File ''username=alice\<newline>password=secret''],
      answers = [], stdout = [], executed = []\<rparr>"

definition example_scripter :: "string \<Rightarrow> scripter" where
  \<open>example_scripter m =
     \<lparr>username = PStr ''alice'', password = PStr ''secret'', group = PNone,
      site = PStr ''hpc.uncc.edu'', config = Some (Path ''/home/alice/hpc_config.txt''),
      mode = m,
      expect = (if m = ''sftp'' then PStr ''sftp>'' else PStr ''alice''),
      quote = (if m = ''sftp'' then None else Some [CHR 0x27]),
      open = ''expect << !\<newline>set timeout -1\<newline>spawn '',
      entry = m @ '' alice@hpc.uncc.edu\<newline>'',
      close = ''expect eof\<newline>!\<newline>'',
      actions = [],
      pw_steps = [Step (PStr ''Password:'') (PStr ''secret'') ''sftp'' ''"'',
                  Step (PStr ''Passcode or option (1-3):'') (PInt 1) ''sftp'' ''"'']\<rparr>\<close>

section \<open>Properties of the string and path operations\<close>

lemma replace_single: "replace_str [c] [] s = filter (\<lambda>x. x \<noteq> c) s"
  by (induction s) auto

lemma str_of_int_1: "str_of_int 1 = ''1''"
  by (simp add: str_of_int_def str_of_nat.simps)

lemma strip_chars_empty: "strip_chars [] s = s"
  by (simp add: strip_chars_def)

lemma Path_tilde: "Path ''~'' = PosixPath [] [''~'']"
  by (simp add: Path_def path_root_def)

lemma set_parents:
  "set (parents p) = (\<lambda>n. PosixPath (root p) (take n (tail p))) ` {..< length (tail p)}"
  by (auto simp: parents_def)

lemma tilde_in_parents:
  "(Path ''~'' \<in> set (parents p)) = (root p = [] \<and> (\<exists>rest. rest \<noteq> [] \<and> tail p = ''~'' # rest))"
proof
  assume "Path ''~'' \<in> set (parents p)"
  then obtain n where n: "n < length (tail p)" "root p = []" "take n (tail p) = [''~'']"
    by (auto simp: set_parents Path_tilde)
  from n(1,3) have "\<exists>rest. rest \<noteq> [] \<and> tail p = ''~'' # rest"
    by (cases n; cases "tail p"; auto)
  then obtain rest where "tail p = ''~'' # rest" "rest \<noteq> []"
    by blast
  with n(2) show "root p = [] \<and> (\<exists>rest. rest \<noteq> [] \<and> tail p = ''~'' # rest)" by blast
next
  assume "root p = [] \<and> (\<exists>rest. rest \<noteq> [] \<and> tail p = ''~'' # rest)"
  then obtain rest where r: "root p = []" "rest \<noteq> []" "tail p = ''~'' # rest" by blast
  then have "PosixPath (root p) (take 1 (tail p)) = Path ''~''" "1 < length (tail p)"
    by (auto simp: Path_tilde)
  then show "Path ''~'' \<in> set (parents p)"
    unfolding set_parents by (intro image_eqI[where x=1]) auto
qed

lemma str_join_Cons: "str_join sep (x # xs) = x @ (if xs = [] then [] else sep @ str_join sep xs)"
  by (cases xs) auto

lemma expand_config_never_raises: "fst (expand_config c w) = Done"
proof (cases "config c")
  case None
  then show ?thesis by (simp add: expand_config_def)
next
  case (Some cfg)
  show ?thesis
  proof (cases "Path ''~'' \<in> set (parents cfg)")
    case True
    then obtain rest where "root cfg = []" "tail cfg = ''~'' # rest"
      by (auto simp: tilde_in_parents)
    then have "take 1 (path_str cfg) = ''~''"
      by (simp add: path_str_def str_join_Cons)
    with Some True show ?thesis by (simp add: expand_config_def)
  next
    case False
    with Some show ?thesis by (simp add: expand_config_def)
  qed
qed

section \<open>Reading the credentials\<close>

lemma expand_config_plain:
  "config c = Some cfg \<Longrightarrow> Path ''~'' \<notin> set (parents cfg) \<Longrightarrow> expand_config c w = (Done, c, w)"
  by (simp add: expand_config_def)

lemma get_credentials_present:
  assumes "config c = Some cfg" "Path ''~'' \<notin> set (parents cfg)"
    and "truthy (username c)" "truthy (password c)" "exists w cfg"
  shows "get_credentials (Suc d) c w save False hl = (Done, c, w)"
  using assms by (simp add: and_then_def expand_config_plain)

lemma lower_plain: "list_all (\<lambda>c. c \<notin> set ''ABCDEFGHIJKLMNOPQRSTUVWXYZ'') s \<Longrightarrow> lower s = s"
  by (induction s) (auto simp: lower_def lower_char_def)

lemma line1_lower: "lower ''username=alice'' = ''username=alice''"
  by (rule lower_plain) simp
lemma line2_lower: "lower ''password=secret'' = ''password=secret''"
  by (rule lower_plain) simp

lemma line1_strip: "strip ''username=alice'' = ''username=alice''"
  by (simp add: strip_def strip_chars_def whitespace_def)
lemma line2_strip: "strip ''password=secret'' = ''password=secret''"
  by (simp add: strip_def strip_chars_def whitespace_def)

lemma line1_creds:
  "get_credential_if_present (get_credential_if_present (get_credential_if_present
     (get_credential_if_present c ''username=alice'' ''username'')
       ''username=alice'' ''password'') ''username=alice'' ''group'') ''username=alice'' ''site''
   = c\<lparr>username := PStr ''alice''\<rparr>"
  by (simp add: get_credential_if_present_def line1_lower strip_def strip_chars_def whitespace_def)

lemma line2_creds:
  "get_credential_if_present (get_credential_if_present (get_credential_if_present
     (get_credential_if_present c ''password=secret'' ''username'')
       ''password=secret'' ''password'') ''password=secret'' ''group'') ''password=secret'' ''site''
   = c\<lparr>password := PStr ''secret''\<rparr>"
  by (simp add: get_credential_if_present_def line2_lower strip_def strip_chars_def whitespace_def)

lemma file_lines_two:
  "file_lines ''username=alice\<newline>password=secret'' = [''username=alice'', ''password=secret'']"
  "file_lines ''username=alice\<newline>password=secret\<newline>'' = [''username=alice'', ''password=secret'']"
  by (simp_all add: file_lines_def)

lemma read_two_lines:
  assumes "node_at w cfg = Some (File content)"
    and "content = ''username=alice\<newline>password=secret'' \<or> content = ''username=alice\<newline>password=secret\<newline>''"
  shows "read_credentials c w cfg = (Done, c\<lparr>username := PStr ''alice'', password := PStr ''secret''\<rparr>, w)"
  using assms
  by (auto simp add: read_credentials_def file_lines_two line1_strip line2_strip line1_creds line2_creds)

lemma expand_config_Some:
  assumes "config c = Some cfg"
  shows "expand_config c w =
    (Done, c\<lparr>config := Some (if Path ''~'' \<in> set (parents cfg)
                              then Path (replace_str ''~'' (path_str (home w)) (path_str cfg))
                              else cfg)\<rparr>, w)"
proof (cases "Path ''~'' \<in> set (parents cfg)")
  case True
  then obtain rest where "root cfg = []" "tail cfg = ''~'' # rest"
    by (auto simp: tilde_in_parents)
  then have "take 1 (path_str cfg) = ''~''"
    by (simp add: path_str_def str_join_Cons)
  with assms True show ?thesis by (simp add: expand_config_def)
next
  case False
  have "c\<lparr>config := config c\<rparr> = c" by simp
  with assms False show ?thesis by (simp add: expand_config_def)
qed

lemma get_credentials_read_file:
  assumes "config c = Some cfg"
    and "p = (if Path ''~'' \<in> set (parents cfg)
              then Path (replace_str ''~'' (path_str (home w)) (path_str cfg)) else cfg)"
    and "Path ''~'' \<notin> set (parents p)"
    and "\<not> truthy (username c) \<or> \<not> truthy (password c)" "exists w p"
    and "read_credentials (c\<lparr>config := Some p\<rparr>) w p = (Done, c', w)"
    and "truthy (username c')" "truthy (password c')" "config c' = Some p"
  shows "get_credentials (Suc (Suc d)) c w save False hl = (Done, c', w)"
proof -
  have inner: "get_credentials (Suc d) c' w True False False = (Done, c', w)"
    using assms by (intro get_credentials_present) auto
  have e: "expand_config c w = (Done, c\<lparr>config := Some p\<rparr>, w)"
    using assms(1,2) by (simp add: expand_config_Some)
  show ?thesis
    using assms(4-6,9) inner
    by (subst get_credentials.simps(2)) (auto simp add: e and_then_def)
qed

text \<open>
  Claim C6. A Scripter constructed with a config path whose file holds the two lines
  \<^verbatim>\<open>username=alice\<close> and \<^verbatim>\<open>password=secret\<close> (with or without a final
  newline), and with neither username nor password given, has the username
  \<^verbatim>\<open>alice\<close> and the password \<^verbatim>\<open>secret\<close>. The world is returned as it was: nothing
  is printed, no prompt is issued, no answer is consumed and no file is written. \<open>p\<close>
  is the path after the expansion of a leading home-directory shorthand.
\<close>

theorem config_file_credentials:
  assumes "cfg \<noteq> []"
    and "p = (if Path ''~'' \<in> set (parents (Path cfg))
              then Path (replace_str ''~'' (path_str (home w)) (path_str (Path cfg)))
              else Path cfg)"
    and "Path ''~'' \<notin> set (parents p)"
    and "node_at w p = Some (File content)"
    and "content = ''username=alice\<newline>password=secret''
         \<or> content = ''username=alice\<newline>password=secret\<newline>''"
  shows "\<exists>s. Scripter (Suc (Suc depth)) w PNone PNone site' mode' group' (PStr cfg) = (Inr s, w)
             \<and> username s = PStr ''alice'' \<and> password s = PStr ''secret''"
proof -
  let ?c = "\<lparr>username = PNone, password = PNone, group = group', site = site',
             config = Some (Path cfg)\<rparr>"
  let ?c' = "?c\<lparr>config := Some p, username := PStr ''alice'', password := PStr ''secret''\<rparr>"
  have r: "read_credentials (?c\<lparr>config := Some p\<rparr>) w p = (Done, ?c', w)"
    using assms(4,5) by (simp add: read_two_lines)
  have "get_credentials (Suc (Suc depth)) ?c w True False False = (Done, ?c', w)"
    using assms(2,3,4) r
    by (intro get_credentials_read_file[where cfg = "Path cfg" and p = p]) (auto simp: exists_def)
  with assms(1) show ?thesis
    by (simp add: Scripter_def)
qed

lemma example_config: "Path ''/home/alice/hpc_config.txt'' = PosixPath ''/'' [''home'', ''alice'', ''hpc_config.txt'']"
  by (simp add: Path_def path_root_def)

lemma example_no_tilde: "Path ''~'' \<notin> set (parents (Path ''/home/alice/hpc_config.txt''))"
  by (simp add: tilde_in_parents example_config)

lemma example_node:
  "node_at example_world (Path ''/home/alice/hpc_config.txt'') = Some (File ''username=alice\<newline>password=secret'')"
  by (simp add: node_at_def example_world_def example_config)

theorem config_file_credentials_witness:
  "\<exists>s. Scripter (Suc (Suc 0)) example_world PNone PNone (PStr ''hpc.uncc.edu'') ''sftp'' PNone
          (PStr ''/home/alice/hpc_config.txt'') = (Inr s, example_world)
       \<and> username s = PStr ''alice'' \<and> password s = PStr ''secret''"
  by (rule config_file_credentials[where p = "Path ''/home/alice/hpc_config.txt''"
        and content = "''username=alice\<newline>password=secret''"])
     (simp_all add: example_no_tilde example_node)

lemma Scripter_example:
  "Scripter (Suc (Suc 0)) example_world PNone PNone (PStr ''hpc.uncc.edu'') m PNone
     (PStr ''/home/alice/hpc_config.txt'') = (Inr (example_scripter m), example_world)"
proof -
  let ?c = "\<lparr>username = PNone, password = PNone, group = PNone, site = PStr ''hpc.uncc.edu'',
             config = Some (Path ''/home/alice/hpc_config.txt'')\<rparr>"
  let ?c' = "?c\<lparr>config := Some (Path ''/home/alice/hpc_config.txt''), username := PStr ''alice'', password := PStr ''secret''\<rparr>"
  have r: "read_credentials (?c\<lparr>config := Some (Path ''/home/alice/hpc_config.txt'')\<rparr>) example_world (Path ''/home/alice/hpc_config.txt'') = (Done, ?c', example_world)"
    using example_node by (simp add: read_two_lines)
  have "get_credentials (Suc (Suc 0)) ?c example_world True False False = (Done, ?c', example_world)"
    using r example_no_tilde example_node
    by (intro get_credentials_read_file[where cfg = "Path ''/home/alice/hpc_config.txt''"]) (auto simp: exists_def)
  then show ?thesis
    by (simp add: Scripter_def example_scripter_def)
qed

section \<open>The test for an empty script\<close>

text \<open>
  Claim C10. \<^verbatim>\<open>is_empty()\<close> is true exactly when there are steps; it is false after
  \<^verbatim>\<open>clear()\<close> and right after construction.
\<close>

theorem is_empty_inverted:
  "is_empty s = (actions s \<noteq> []) \<and> is_empty (clear s) = False \<and>
   (Scripter depth w u p st m g cfg = (Inr s0, w1) \<longrightarrow> is_empty s0 = False)"
  by (auto simp: is_empty_def clear_def Scripter_def split: option.splits prod.splits outcome.splits)

theorem is_empty_inverted_witness:
  "is_empty (example_scripter ''sftp'') = False \<and>
   is_empty (pwd (example_scripter ''sftp'')) = True \<and>
   is_empty (clear (pwd (example_scripter ''sftp''))) = False"
  using is_empty_inverted[of "example_scripter ''sftp''" "Suc (Suc 0)" example_world PNone PNone
      "PStr ''hpc.uncc.edu''" "''sftp''" PNone "PStr ''/home/alice/hpc_config.txt''"
      "example_scripter ''sftp''" example_world]
    is_empty_inverted[of "pwd (example_scripter ''sftp'')"]
    Scripter_example[of "''sftp''"]
  by (simp add: pwd_def add_step_def)

section \<open>The home-directory shorthand in the config path\<close>

text \<open>
  Claim C9. The check for a misplaced home-directory shorthand can never fire: the
  shorthand is among the parents of a path only when it is the first component, and then
  the text of the path starts with it (\<open>expand_config_never_raises\<close>). A config path
  with the shorthand in the middle is accepted as it is.
\<close>

theorem tilde_inside_config_path_accepted:
  "(case fst (Scripter (Suc 0) example_world (PStr ''alice'') (PStr ''secret'') PNone ''sftp'' PNone
               (PStr ''a/~/b'')) of
      Inl e \<Rightarrow> None | Inr s \<Rightarrow> config s) = Some (PosixPath [] [''a'', ''~'', ''b''])"
proof -
  have p: "Path ''a/~/b'' = PosixPath [] [''a'', ''~'', ''b'']"
    by (simp add: Path_def path_root_def)
  have n: "Path ''~'' \<notin> set (parents (PosixPath [] [''a'', ''~'', ''b'']))"
    by (simp add: tilde_in_parents)
  have par: "parents (PosixPath [] [''a'', ''~'']) = [PosixPath [] [''a''], PosixPath [] []]"
    by (simp add: parents_def upt_rec)
  show ?thesis
    by (simp add: Scripter_def p expand_config_plain[OF _ n] and_then_def exists_def node_at_def
        example_world_def write_credentials_def mkdir_parents_def parent_def par is_file_def print_def example_config)
qed

text \<open>
  A leading shorthand, as in the example script, is replaced by the home directory.
\<close>

lemma leading_tilde_expanded:
  "expand_config \<lparr>username = u, password = pw, group = g, site = st,
                   config = Some (Path ''~/.pooPatrol/hpc_config.txt'')\<rparr> example_world =
     (Done,
      \<lparr>username = u, password = pw, group = g, site = st,
       config = Some (PosixPath ''/'' [''home'', ''alice'', ''.pooPatrol'', ''hpc_config.txt''])\<rparr>,
      example_world)"
proof -
  have p: "Path ''~/.pooPatrol/hpc_config.txt'' = PosixPath [] [''~'', ''.pooPatrol'', ''hpc_config.txt'']"
    by (simp add: Path_def path_root_def)
  have h: "path_str (home example_world) = ''/home/alice''"
    by (simp add: example_world_def Path_def path_root_def path_str_def)
  have t: "Path ''~'' \<in> set (parents (PosixPath [] [''~'', ''.pooPatrol'', ''hpc_config.txt'']))"
    by (simp add: tilde_in_parents)
  have r: "Path (replace_str ''~'' ''/home/alice''
                  (path_str (PosixPath [] [''~'', ''.pooPatrol'', ''hpc_config.txt''])))
           = PosixPath ''/'' [''home'', ''alice'', ''.pooPatrol'', ''hpc_config.txt'']"
    by (simp add: path_str_def Path_def path_root_def)
  show ?thesis
    unfolding p using t by (simp add: expand_config_Some h r)
qed

section \<open>Directory changes and transfers\<close>

text \<open>
  Claim C5, as stated, fails for a directory that is empty or \<^verbatim>\<open>None\<close>: the Step that
  \<^verbatim>\<open>cwd\<close> appends sends the word \<^verbatim>\<open>cd\<close> alone, not \<^verbatim>\<open>cd\<close> followed by a space and the
  text of the directory.
\<close>

theorem cwd_empty_dir_sends_cd_alone:
  \<open>actions (snd (cwd (example_scripter ''sftp'') (PStr []) False)) =
     [Step (PStr ''sftp>'') (PStr ''cd'') ''sftp'' ''"''] \<and>
   actions (snd (cwd (example_scripter ''sftp'') (PStr []) False)) \<noteq>
     [Step (PStr ''sftp>'') (PStr (''cd '' @ py_str (PStr []))) ''sftp'' ''"''] \<and>
   actions (snd (cwd (example_scripter ''sftp'') PNone False)) =
     [Step (PStr ''sftp>'') (PStr ''cd'') ''sftp'' ''"''] \<and>
   actions (snd (cwd (example_scripter ''sftp'') PNone False)) \<noteq>
     [Step (PStr ''sftp>'') (PStr (''cd '' @ py_str PNone)) ''sftp'' ''"'']\<close>
  by (simp add: cwd_def basic_step_def add_step_def example_scripter_def Step_def)

text \<open>
  Claim C5, amended. Outside sftp mode \<^verbatim>\<open>cwd(dir, local=True)\<close> raises and leaves the object
  as it was. With \<^verbatim>\<open>local=False\<close>, and in sftp mode with \<^verbatim>\<open>local=True\<close>, it appends
  exactly one Step, for every directory: the Step waits for the session's prompt and sends
  the word \<^verbatim>\<open>cd\<close>, respectively \<^verbatim>\<open>lcd\<close>, followed by a space and the directory when
  the directory is not empty, and the word alone when it is empty or \<^verbatim>\<open>None\<close>.
\<close>

theorem cwd_steps:
  \<open>(mode s \<noteq> ''sftp'' \<longrightarrow>
      cwd s dir True = (Raised (PyException ''lcd only works with sftp''), s)) \<and>
   cwd s dir False =
     (Done, s\<lparr>actions := actions s @
        [Step (expect s) (PStr (''cd'' @ (if truthy dir then '' '' @ py_str dir else [])))
           ''sftp'' ''"'']\<rparr>) \<and>
   (mode s = ''sftp'' \<longrightarrow>
      cwd s dir True =
        (Done, s\<lparr>actions := actions s @
           [Step (expect s) (PStr (''lcd'' @ (if truthy dir then '' '' @ py_str dir else [])))
              ''sftp'' ''"'']\<rparr>))\<close>
  by (simp add: cwd_def basic_step_def add_step_def)

theorem cwd_steps_witness:
  \<open>cwd (example_scripter ''ssh'') (PStr ''data'') True =
      (Raised (PyException ''lcd only works with sftp''), example_scripter ''ssh'') \<and>
   actions (snd (cwd (example_scripter ''ssh'') (PStr ''data'') False)) =
      [Step (PStr ''alice'') (PStr ''cd data'') ''sftp'' ''"''] \<and>
   actions (snd (cwd (example_scripter ''sftp'') (PStr ''data'') True)) =
      [Step (PStr ''sftp>'') (PStr ''lcd data'') ''sftp'' ''"''] \<and>
   actions (snd (cwd (example_scripter ''sftp'') (PStr []) True)) =
      [Step (PStr ''sftp>'') (PStr ''lcd'') ''sftp'' ''"'']\<close>
  using cwd_steps[of "example_scripter ''ssh''" "PStr ''data''"]
        cwd_steps[of "example_scripter ''sftp''" "PStr ''data''"]
        cwd_steps[of "example_scripter ''sftp''" "PStr []"]
  by (simp add: example_scripter_def)

text \<open>
  Claim C4, as stated, fails for \<^verbatim>\<open>put\<close> with a destination directory: outside sftp mode
  the call raises, but the step that creates the directory has been appended by then.
\<close>

theorem put_ssh_keeps_mkdir_step:
  \<open>mode (example_scripter ''ssh'') \<noteq> ''sftp'' \<and>
   fst (put (example_scripter ''ssh'') (PStr ''data.csv'') (PStr ''remote/dir'') PNone [] False) =
     Raised (PyException ([CHR 0x27] @ ''put'' @ [CHR 0x27] @ '' can only be used with mode=''
                          @ [CHR 0x27] @ ''sftp'' @ [CHR 0x27])) \<and>
   actions (snd (put (example_scripter ''ssh'') (PStr ''data.csv'') (PStr ''remote/dir'') PNone [] False))
     \<noteq> actions (example_scripter ''ssh'')\<close>
  by (simp add: put_def transfer_def add_step_def example_scripter_def)

text \<open>
  Claim C4, amended. Outside sftp mode \<^verbatim>\<open>transfer\<close>, \<^verbatim>\<open>get\<close> and \<^verbatim>\<open>put\<close> raise the
  exception that names the operation. \<^verbatim>\<open>transfer\<close> and \<^verbatim>\<open>get\<close> leave the object as it was,
  and so does \<^verbatim>\<open>put\<close> without a destination directory; with one, \<^verbatim>\<open>put\<close> leaves its
  \<^verbatim>\<open>mkdir\<close> step behind.
\<close>

theorem transfer_not_sftp:
  assumes "mode s \<noteq> ''sftp''"
  shows \<open>transfer s trans_type file outdir local new_name options =
           (Raised (PyException ([CHR 0x27] @ trans_type @ [CHR 0x27]
              @ '' can only be used with mode='' @ [CHR 0x27] @ ''sftp'' @ [CHR 0x27])), s) \<and>
         get s file outdir new_name options =
           (Raised (PyException ([CHR 0x27] @ ''get'' @ [CHR 0x27]
              @ '' can only be used with mode='' @ [CHR 0x27] @ ''sftp'' @ [CHR 0x27])), s) \<and>
         put s file outdir new_name options set_perm =
           (Raised (PyException ([CHR 0x27] @ ''put'' @ [CHR 0x27]
              @ '' can only be used with mode='' @ [CHR 0x27] @ ''sftp'' @ [CHR 0x27])),
            if truthy outdir
            then s\<lparr>actions := actions s @ [Step (expect s) (PStr (''mkdir '' @ py_str outdir)) ''sftp'' ''"'']\<rparr>
            else s)\<close>
  using assms by (simp add: transfer_def get_def put_def add_step_def)

theorem transfer_not_sftp_witness:
  \<open>get (example_scripter ''ssh'') (PStr ''data.csv'') (PStr ''local/dir'') PNone [] =
     (Raised (PyException ([CHR 0x27] @ ''get'' @ [CHR 0x27]
              @ '' can only be used with mode='' @ [CHR 0x27] @ ''sftp'' @ [CHR 0x27])),
      example_scripter ''ssh'') \<and>
   put (example_scripter ''ssh'') (PStr ''data.csv'') PNone PNone [] False =
     (Raised (PyException ([CHR 0x27] @ ''put'' @ [CHR 0x27]
              @ '' can only be used with mode='' @ [CHR 0x27] @ ''sftp'' @ [CHR 0x27])),
      example_scripter ''ssh'')\<close>
proof -
  have m: "mode (example_scripter ''ssh'') \<noteq> ''sftp''"
    by (simp add: example_scripter_def)
  show ?thesis
    using transfer_not_sftp[OF m, of "''get''" "PStr ''data.csv''" "PStr ''local/dir''" True PNone "[]" False]
          transfer_not_sftp[OF m, of "''put''" "PStr ''data.csv''" PNone False PNone "[]" False]
    by simp
qed






section \<open>Running the script\<close>

lemma Scripter_fields:
  assumes "Scripter depth w0 u p st m g cfg = (Inr s0, w1)"
  shows \<open>mode s0 = m\<close>
    and \<open>expect s0 = (if m = ''sftp'' then PStr ''sftp>'' else username s0)\<close>
    and \<open>open s0 = ''expect << !\<newline>set timeout -1\<newline>spawn ''\<close>
    and \<open>entry s0 = m @ '' '' @ py_str (username s0) @ ''@'' @ py_str (site s0) @ ''\<newline>''\<close>
    and \<open>close s0 = ''expect eof\<newline>!\<newline>''\<close>
    and \<open>actions s0 = []\<close>
    and \<open>pw_steps s0 = [Step (PStr ''Password:'') (password s0) ''sftp'' ''"'',
                        Step (PStr ''Passcode or option (1-3):'') (PInt 1) ''sftp'' ''"'']\<close>
  using assms
  by (auto simp: Scripter_def split: option.splits prod.splits outcome.splits)

lemma pw_steps_text:
  \<open>concat (map (\<lambda>st. step_repr st ''\<newline>'')
      [Step (PStr ''Password:'') pw ''sftp'' ''"'',
       Step (PStr ''Passcode or option (1-3):'') (PInt 1) ''sftp'' ''"'']) =
    ''expect "Password:"\<newline>send "'' @ py_str pw @ ''\<newline>"\<newline>''
    @ ''expect "Passcode or option (1-3):"\<newline>send "1\<newline>"\<newline>''\<close>
  by (simp add: step_repr_def Step_def str_of_int_1)

text \<open>
  Claim C1. Let \<open>s\<close> be a Scripter as construction in sftp or ssh mode returned it, with
  any steps \<open>acts\<close> accumulated since (and any group set since). \<^verbatim>\<open>run()\<close> appends exactly
  one Step, which sends \<^verbatim>\<open>quit\<close> in sftp mode and \<^verbatim>\<open>exit\<close> in ssh mode, and hands one text
  to the command interpreter: the header with \<^verbatim>\<open>set timeout -1\<close> and the spawn of
  \<^verbatim>\<open><mode> <username>@<site>\<close>, the password step, the passcode step that sends 1, every
  accumulated Step in order with the exit Step last, and the closing end-of-file lines.
\<close>

theorem run_script:
  assumes "Scripter depth w0 u p st m g cfg = (Inr s0, w1)"
    and "m = ''sftp'' \<or> m = ''ssh''"
    and "s = s0\<lparr>actions := acts, group := g'\<rparr>"
    and \<open>exit_step = Step (expect s0) (PStr (if m = ''sftp'' then ''quit'' else ''exit'')) ''sftp'' ''"''\<close>
  shows \<open>run s w =
          (Done, s\<lparr>actions := acts @ [exit_step]\<rparr>,
           w\<lparr>executed := executed w @
             [''expect << !\<newline>set timeout -1\<newline>spawn ''
              @ m @ '' '' @ py_str (username s0) @ ''@'' @ py_str (site s0) @ ''\<newline>''
              @ ''expect "Password:"\<newline>send "'' @ py_str (password s0) @ ''\<newline>"\<newline>''
              @ ''expect "Passcode or option (1-3):"\<newline>send "1\<newline>"\<newline>''
              @ concat (map (\<lambda>st. step_repr st ''\<newline>'') (acts @ [exit_step]))
              @ ''expect eof\<newline>!\<newline>'']\<rparr>)\<close>
proof -
  note f = Scripter_fields[OF assms(1)]
  have s: "mode s = m" "expect s = expect s0" "open s = open s0" "entry s = entry s0"
    "close s = close s0" "pw_steps s = pw_steps s0" "actions s = acts"
    by (simp_all add: assms(3) f(1))
  have a: "add_step s (PStr e) PNone = s\<lparr>actions := acts @ [Step (expect s0) (PStr e) ''sftp'' [CHR 0x22]]\<rparr>" for e
    by (simp add: add_step_def s)
  have fc: "full_command (s\<lparr>actions := acts @ [x]\<rparr>) =
      open s0 @ entry s0 @ concat (map (\<lambda>st. step_repr st ''\<newline>'') (pw_steps s0))
      @ concat (map (\<lambda>st. step_repr st ''\<newline>'') (acts @ [x])) @ close s0" for x
    by (simp add: full_command_def get_steps_def s f(7))
  have r: "run s w = (Done, add_step s (PStr e) PNone,
              w\<lparr>executed := executed w @ [full_command (add_step s (PStr e) PNone)]\<rparr>)"
    if "e = (if m = ''sftp'' then ''quit'' else ''exit'')" for e
    using assms(2) that by (auto simp: run_def s(1) Let_def)
  have t: "open s0 @ entry s0 @ concat (map (\<lambda>st. step_repr st ''\<newline>'') (pw_steps s0)) @ rest
      = ''expect << !\<newline>set timeout -1\<newline>spawn ''
              @ m @ '' '' @ py_str (username s0) @ ''@'' @ py_str (site s0) @ ''\<newline>''
              @ ''expect '' @ [CHR 0x22] @ ''Password:'' @ [CHR 0x22] @ ''\<newline>send '' @ [CHR 0x22] @ py_str (password s0) @ ''\<newline>'' @ [CHR 0x22] @ ''\<newline>''
              @ ''expect '' @ [CHR 0x22] @ ''Passcode or option (1-3):'' @ [CHR 0x22] @ ''\<newline>send '' @ [CHR 0x22] @ ''1\<newline>'' @ [CHR 0x22] @ ''\<newline>''
              @ rest" for rest
    unfolding f(3,4,7) pw_steps_text by simp
  show ?thesis
    unfolding r[OF refl] a fc t assms(4) by (simp add: f(5))
qed


theorem run_script_witness:
  \<open>run (example_scripter ''sftp'') example_world =
     (Done,
      (example_scripter ''sftp'')\<lparr>actions := [Step (PStr ''sftp>'') (PStr ''quit'') ''sftp'' ''"'']\<rparr>,
      example_world\<lparr>executed :=
        [''expect << !\<newline>set timeout -1\<newline>spawn sftp alice@hpc.uncc.edu\<newline>''
         @ ''expect "Password:"\<newline>send "secret\<newline>"\<newline>''
         @ ''expect "Passcode or option (1-3):"\<newline>send "1\<newline>"\<newline>''
         @ ''expect "sftp>"\<newline>send "quit\<newline>"\<newline>''
         @ ''expect eof\<newline>!\<newline>'']\<rparr>)\<close>
proof -
  have e: "example_scripter ''sftp'' = (example_scripter ''sftp'')\<lparr>actions := [], group := PNone\<rparr>"
    by (simp add: example_scripter_def)
  have x: "expect (example_scripter ''sftp'') = PStr ''sftp>''"
    "username (example_scripter ''sftp'') = PStr ''alice''"
    "password (example_scripter ''sftp'') = PStr ''secret''"
    "site (example_scripter ''sftp'') = PStr ''hpc.uncc.edu''"
    by (simp_all add: example_scripter_def)
  have w: "executed example_world = []"
    by (simp add: example_world_def)
  have st: \<open>step_repr (Step (PStr ''sftp>'') (PStr ''quit'') ''sftp'' ''"'') ''\<newline>''
       = ''expect "sftp>"\<newline>send "quit\<newline>"\<newline>''\<close>
    by (simp add: step_repr_def Step_def)
  show ?thesis
    using run_script[OF Scripter_example[of "''sftp''"] _ e refl, of example_world]
    by (simp add: x w st)
qed

section \<open>Previewing the steps\<close>

lemma replace_str_skip:
  "old \<noteq> [] \<Longrightarrow> take (length old) (c # cs) \<noteq> old \<Longrightarrow>
   replace_str old new (c # cs) = c # replace_str old new cs"
  by simp

lemma no_quote_no_prefix:
  assumes "CHR 0x22 \<notin> set t" and "sp \<noteq> CHR 0x0A"
  shows "take n (t @ [CHR 0x0A, CHR 0x22]) \<noteq> pre @ [sp, CHR 0x22]"
proof
  assume eq: "take n (t @ [CHR 0x0A, CHR 0x22]) = pre @ [sp, CHR 0x22]"
  consider "n \<le> length t" | "n = Suc (length t)" | "length t + 2 \<le> n"
    by linarith
  then show False
  proof cases
    case 1
    with eq have "take n t = pre @ [sp, CHR 0x22]" by simp
    then have "CHR 0x22 \<in> set (take n t)" by simp
    then have "CHR 0x22 \<in> set t" by (rule in_set_takeD)
    with assms(1) show False by simp
  next
    case 2
    with eq have "t @ [CHR 0x0A] = (pre @ [sp]) @ [CHR 0x22]" by simp
    then show False by (simp only: append1_eq_conv) simp
  next
    case 3
    with eq have "(t @ [CHR 0x0A]) @ [CHR 0x22] = (pre @ [sp]) @ [CHR 0x22]" by simp
    then have "t @ [CHR 0x0A] = pre @ [sp]" by (simp only: append1_eq_conv)
    with assms(2) show False by simp
  qed
qed

lemma replace_send_none:
  assumes "CHR 0x22 \<notin> set t"
  shows \<open>replace_str ''send "'' [] (t @ ''\<newline>"'') = t @ ''\<newline>"''\<close>
  using assms
proof (induction t)
  case Nil
  show ?case by simp
next
  case (Cons c t)
  have e1: \<open>''send'' @ [CHR '' '', CHR 0x22] = ''send "''\<close>
    by simp
  have \<open>take (length ''send "'') ((c # t) @ [CHR 0x0A, CHR 0x22]) \<noteq> ''send'' @ [CHR '' '', CHR 0x22]\<close>
    by (rule no_quote_no_prefix) (use Cons.prems in auto)
  then have np: \<open>take (length ''send "'') (c # (t @ [CHR 0x0A, CHR 0x22])) \<noteq> ''send "''\<close>
    by (simp only: append_Cons append_Nil simp_thms)
  have \<open>replace_str ''send "'' [] ((c # t) @ ''\<newline>"'') =
        replace_str ''send "'' [] (c # (t @ ''\<newline>"''))\<close>
    by (simp only: append_Cons)
  also have \<open>\<dots> = c # replace_str ''send "'' [] (t @ ''\<newline>"'')\<close>
    by (rule replace_str_skip[OF _ np]) simp
  also have \<open>replace_str ''send "'' [] (t @ ''\<newline>"'') = t @ ''\<newline>"''\<close>
    using Cons by simp
  finally show ?case by (simp only: append_Cons)
qed

lemma action_text:
  \<open>replace_str ''"'' [] (replace_str ''send "'' [] (strip_chars [] (action (Step e input m q)))) =
     filter (\<lambda>c. c \<noteq> CHR 0x22) (replace_str ''send "'' [] (py_str input @ ''\<newline>"''))\<close>
proof -
  have "replace_str [CHR 0x22] [] x = filter (\<lambda>c. c \<noteq> CHR 0x22) x" for x
    by (rule replace_single)
  then show ?thesis
    by (simp add: strip_chars_empty Step_def)
qed

lemma action_text_plain:
  assumes "CHR 0x22 \<notin> set (py_str input)"
  shows \<open>replace_str ''"'' [] (replace_str ''send "'' [] (strip_chars [] (action (Step e input m q)))) =
     py_str input @ ''\<newline>''\<close>
proof -
  have "filter (\<lambda>c. c \<noteq> CHR 0x22) (py_str input) = py_str input"
    using assms by (auto simp: filter_id_conv)
  then show ?thesis
    unfolding action_text replace_send_none[OF assms] by simp
qed

lemma print_tuples:
  "foldl (\<lambda>w1 (i, a). w1\<lparr>stdout := stdout w1 @ [PrintTuple i a]\<rparr>) w xs =
   w\<lparr>stdout := stdout w @ map (\<lambda>(i, a). PrintTuple i a) xs\<rparr>"
  by (induction xs arbitrary: w) (auto simp: case_prod_beta)

lemma preview_steps_eq:
  \<open>preview_steps s w =
     w\<lparr>stdout := stdout w @ PrintStr ''\<newline>Command preview:''
                  # map (\<lambda>(i, a). PrintTuple i a) (enumerate 0 (get_actions s))\<rparr>\<close>
  by (simp add: preview_steps_def print_tuples print_def)

text \<open>
  Claim C8, amended. \<^verbatim>\<open>preview_steps()\<close> prints its heading and then one numbered pair for
  each Step, in the order of appending, and changes nothing else. The text of a pair is the
  send directive of the Step with every \<^verbatim>\<open>send "\<close> and then every double quote removed: for
  a command without a double quote this is the command followed by a newline character.
\<close>

theorem preview_lines:
  \<open>preview_steps s w =
     w\<lparr>stdout := stdout w @ PrintStr ''\<newline>Command preview:''
                  # map (\<lambda>(i, a). PrintTuple i a) (enumerate 0 (get_actions s))\<rparr> \<and>
   length (get_actions s) = length (actions s) \<and>
   get_actions (add_step s input e) =
     get_actions s @ [filter (\<lambda>c. c \<noteq> CHR 0x22) (replace_str ''send "'' [] (py_str input @ ''\<newline>"''))] \<and>
   (CHR 0x22 \<notin> set (py_str input) \<longrightarrow>
      get_actions (add_step s input e) = get_actions s @ [py_str input @ ''\<newline>''])\<close>
proof (intro conjI impI)
  show \<open>preview_steps s w =
     w\<lparr>stdout := stdout w @ PrintStr ''\<newline>Command preview:''
                  # map (\<lambda>(i, a). PrintTuple i a) (enumerate 0 (get_actions s))\<rparr>\<close>
    by (rule preview_steps_eq)
  show "length (get_actions s) = length (actions s)"
    by (simp add: get_actions_def)
  show \<open>get_actions (add_step s input e) =
     get_actions s @ [filter (\<lambda>c. c \<noteq> CHR 0x22) (replace_str ''send "'' [] (py_str input @ ''\<newline>"''))]\<close>
    using action_text by (simp add: get_actions_def add_step_def Let_def)
  show \<open>get_actions (add_step s input e) = get_actions s @ [py_str input @ ''\<newline>'']\<close>
    if "CHR 0x22 \<notin> set (py_str input)"
    using action_text_plain[OF that] by (simp add: get_actions_def add_step_def Let_def)
qed

theorem preview_lines_witness:
  \<open>get_actions (add_step (example_scripter ''sftp'') (PStr ''ls -la'') PNone) = [''ls -la\<newline>''] \<and>
   stdout (preview_steps (add_step (example_scripter ''sftp'') (PStr ''ls -la'') PNone) example_world) =
     [PrintStr ''\<newline>Command preview:'', PrintTuple 0 ''ls -la\<newline>'']\<close>
proof -
  have q: "CHR 0x22 \<notin> set (py_str (PStr ''ls -la''))" by simp
  have a: "get_actions (example_scripter ''sftp'') = []"
    by (simp add: get_actions_def example_scripter_def)
  have g: \<open>get_actions (add_step (example_scripter ''sftp'') (PStr ''ls -la'') PNone) = [''ls -la\<newline>'']\<close>
    using preview_lines[of "example_scripter ''sftp''" example_world "PStr ''ls -la''" PNone] q a
    by simp
  show ?thesis
    using preview_lines[of "add_step (example_scripter ''sftp'') (PStr ''ls -la'') PNone" example_world]
    by (simp add: g example_world_def)
qed

text \<open>
  Claim C8, as stated, fails for a command that contains double quotes: the preview of
  \<^verbatim>\<open>echo "hi"\<close> is neither the command nor the command with a newline, the quotes of the
  command are removed with the markup.
\<close>

theorem preview_removes_quotes:
  \<open>get_actions (add_step (example_scripter ''sftp'') (PStr ''echo "hi"'') PNone) \<noteq> [''echo "hi"''] \<and>
   get_actions (add_step (example_scripter ''sftp'') (PStr ''echo "hi"'') PNone) \<noteq> [''echo "hi"\<newline>''] \<and>
   stdout (preview_steps (add_step (example_scripter ''sftp'') (PStr ''echo "hi"'') PNone) example_world) =
     [PrintStr ''\<newline>Command preview:'', PrintTuple 0 ''echo hi\<newline>'']\<close>
proof -
  have g: \<open>get_actions (add_step (example_scripter ''sftp'') (PStr ''echo "hi"'') PNone) = [''echo hi\<newline>'']\<close>
    by (simp add: get_actions_def add_step_def example_scripter_def Step_def strip_chars_empty)
  show ?thesis
    unfolding preview_steps_eq g by (simp add: example_world_def)
qed

section \<open>Setting permissions\<close>

lemma digit_nth: "n < 10 \<Longrightarrow> ''0123456789'' ! n \<in> set ''0123456789''"
  by (rule nth_mem) simp

lemma str_of_nat_digits:
  "list_all (\<lambda>c. c \<in> set ''0123456789'') (str_of_nat n) \<and> str_of_nat n \<noteq> []"
proof (induction n rule: str_of_nat.induct)
  case (1 n)
  show ?case
  proof (cases "n < 10")
    case True
    then show ?thesis
      using digit_nth[of n] by (subst (1 2) str_of_nat.simps) simp
  next
    case False
    then show ?thesis
      using 1 digit_nth[of "n mod 10"] by (subst (1 2) str_of_nat.simps) simp
  qed
qed

lemma isnumeric_str_of_int: "isnumeric (str_of_int i) = (0 \<le> i)"
  using str_of_nat_digits[of "nat i"]
  by (auto simp: isnumeric_def str_of_int_def)

lemma str_of_int_nonempty: "str_of_int i \<noteq> []"
  using str_of_nat_digits[of "nat i"] by (simp add: str_of_int_def)

lemma check_numeric_Cons:
  "check_numeric ((n, x) # rest) =
     (if non_numeric x
      then Some (PyTypeError (''Invalid input ('' @ py_str x @ '', type:<class '' @ [CHR 0x27] @ ''str''
                  @ [CHR 0x27] @ ''>) for '' @ n @ ''. Numeric values must be used over sftp.''))
      else check_numeric rest)"
  by (cases x) (auto simp: isnumeric_str_of_int str_of_int_nonempty)

lemma permission_steps_eq:
  \<open>permission_steps s fl octal =
     s\<lparr>actions := actions s @ concat (map (\<lambda>f.
        Step (expect s) (PStr (str_join '' '' (map py_str (filter truthy [PStr ''chmod'', octal, f])))) ''sftp'' ''"''
        # (if truthy (group s)
           then [Step (expect s) (PStr (str_join '' '' (map py_str (filter truthy [PStr ''chgrp'', group s, f])))) ''sftp'' ''"'']
           else [])) fl)\<rparr>\<close>
proof (induction fl arbitrary: s)
  case Nil
  show ?case by simp
next
  case (Cons f fl)
  show ?case
    unfolding permission_steps.simps Let_def Cons.IH
    by (simp add: basic_step_def add_step_def del: str_join.simps filter.simps)
qed

text \<open>
  Claim C3, amended. In sftp mode \<^verbatim>\<open>set_permissions\<close> raises TypeError exactly when the
  effective group \<open>g\<close> or the octal argument is a string that is neither empty nor numeric,
  or a negative integer; the group has been assigned by then. Otherwise it completes and
  appends, for each file in order, the \<^verbatim>\<open>chmod\<close> step and, when the effective group is
  set, the \<^verbatim>\<open>chgrp\<close> step.
\<close>

theorem set_permissions_sftp:
  assumes "mode s = ''sftp''"
    and "g = (if \<not> truthy (group s) \<and> group' \<noteq> PStr [] then group' else group s)"
    and "fl = (case files of OneFile f \<Rightarrow> [PStr f] | FileList l \<Rightarrow> l)"
  shows \<open>(non_numeric g \<or> non_numeric octal \<longrightarrow>
           (\<exists>msg. set_permissions s files group' octal = (Raised (PyTypeError msg), s\<lparr>group := g\<rparr>))) \<and>
         (\<not> non_numeric g \<and> \<not> non_numeric octal \<longrightarrow>
           set_permissions s files group' octal =
             (Done, s\<lparr>group := g,
                      actions := actions s @ concat (map (\<lambda>f.
                        Step (expect s) (PStr (str_join '' '' (map py_str
                               (filter truthy [PStr ''chmod'', octal, f])))) ''sftp'' ''"''
                        # (if truthy g
                           then [Step (expect s) (PStr (str_join '' '' (map py_str
                                        (filter truthy [PStr ''chgrp'', g, f])))) ''sftp'' ''"'']
                           else [])) fl)\<rparr>))\<close>
proof -
  define s1 where "s1 = s\<lparr>group := g\<rparr>"
  have s1: "(if \<not> truthy (group s) \<and> group' \<noteq> PStr [] then s\<lparr>group := group'\<rparr> else s) = s1"
    by (simp add: s1_def assms(2))
  have f1: "mode s1 = ''sftp''" "group s1 = g" "expect s1 = expect s" "actions s1 = actions s"
    by (simp_all add: s1_def assms(1))
  have sp: "set_permissions s files group' octal =
      (case check_numeric [(''group'', g), (''octal'', octal)] of
         Some e \<Rightarrow> (Raised e, s1) | None \<Rightarrow> (Done, permission_steps s1 fl octal))"
    unfolding set_permissions_def Let_def s1 f1(1) f1(2) assms(3) by simp
  have ok: "s1\<lparr>actions := a\<rparr> = s\<lparr>group := g, actions := a\<rparr>" for a
    by (simp add: s1_def)
  show ?thesis
    unfolding sp check_numeric_Cons permission_steps_eq f1 ok
    by (auto simp add: s1_def simp del: str_join.simps filter.simps)
qed

theorem set_permissions_sftp_witness:
  \<open>set_permissions (example_scripter ''sftp'') (OneFile ''f.txt'') (PStr ''1234'') (PStr ''0664'') =
     (Done, (example_scripter ''sftp'')\<lparr>group := PStr ''1234'',
        actions := [Step (PStr ''sftp>'') (PStr ''chmod 0664 f.txt'') ''sftp'' ''"'',
                    Step (PStr ''sftp>'') (PStr ''chgrp 1234 f.txt'') ''sftp'' ''"'']\<rparr>) \<and>
   (\<exists>msg. set_permissions (example_scripter ''sftp'') (OneFile ''f.txt'') PNone (PStr ''rw-rw-r--'') =
     (Raised (PyTypeError msg), (example_scripter ''sftp'')\<lparr>group := PNone\<rparr>))\<close>
proof -
  have m: "mode (example_scripter ''sftp'') = ''sftp''"
    by (simp add: example_scripter_def)
  have g: "group (example_scripter ''sftp'') = PNone" "actions (example_scripter ''sftp'') = []"
    "expect (example_scripter ''sftp'') = PStr ''sftp>''"
    by (simp_all add: example_scripter_def)
  have n: "isnumeric ''1234''" "isnumeric ''0664''" "\<not> isnumeric ''rw-rw-r--''"
    by (simp_all add: isnumeric_def)
  show ?thesis
    using set_permissions_sftp[OF m refl refl, of "PStr ''1234''" "PStr ''0664''" "OneFile ''f.txt''"]
      set_permissions_sftp[OF m refl refl, of PNone "PStr ''rw-rw-r--''" "OneFile ''f.txt''"]
    by (simp add: g n)
qed

text \<open>
  Claim C3, as stated, fails in both directions: the empty string is not numeric and is
  accepted as the octal argument, and the integer -1 is rejected with TypeError.
\<close>

theorem set_permissions_empty_and_negative:
  \<open>mode (example_scripter ''sftp'') = ''sftp'' \<and> \<not> isnumeric [] \<and>
   fst (set_permissions (example_scripter ''sftp'') (OneFile ''f.txt'') PNone (PStr [])) = Done \<and>
   fst (set_permissions (example_scripter ''sftp'') (OneFile ''f.txt'') PNone (PInt (- 1))) =
     Raised (PyTypeError (''Invalid input (-1, type:<class '' @ [CHR 0x27] @ ''str'' @ [CHR 0x27]
        @ ''>) for octal. Numeric values must be used over sftp.''))\<close>
proof -
  have i: "str_of_int (- 1) = ''-1''"
    by (simp add: str_of_int_def str_of_nat.simps)
  have n: "\<not> isnumeric ''-1''" "\<not> isnumeric []"
    by (simp_all add: isnumeric_def)
  show ?thesis
    by (simp add: set_permissions_def example_scripter_def i n)
qed

section \<open>Writing the credentials\<close>

lemma and_then_pres:
  assumes "P (snd r)" and "\<And>st1. P st1 \<Longrightarrow> P (snd (f st1))"
  shows "P (snd (and_then r f))"
  using assms by (cases r) (auto simp: and_then_def split: outcome.splits)

lemma and_then_Done:
  assumes "and_then r f = (Done, st)"
  obtains st1 where "r = (Done, st1)" "f st1 = (Done, st)"
  using assms by (cases r) (auto simp: and_then_def split: outcome.splits)

lemma print_fs: "fs (print w s) = fs w"
  by (simp add: print_def)

lemma request_credentials_keeps:
  "fs (snd (snd (request_credentials d c w ru rp))) = fs w \<and>
   config (fst (snd (request_credentials d c w ru rp))) = config c"
proof (induction d arbitrary: c w ru rp)
  case 0
  show ?case by simp
next
  case (Suc d)
  define P :: "'a creds_scheme \<times> world \<Rightarrow> bool"
    where "P = (\<lambda>st. fs (snd st) = fs w \<and> config (fst st) = config c)"
  have "P (snd (request_credentials (Suc d) c w ru rp))"
    unfolding request_credentials.simps
  proof (intro and_then_pres[where P = P])
    show "P (snd (let w0 = print w ''Collecting your cluster login information to speed up future interactions:''
              in if \<not> truthy (username c) \<or> ru then
                   (case py_input w0 ''Username:\<newline>> '' of
                      (None, w1) \<Rightarrow> (Raised PyEOFError, c, w1)
                    | (Some u, w1) \<Rightarrow>
                        (case py_input (print w1 (''The username you entered is: '' @ u))
                                ''Is this correct? (Y/n)\<newline>> '' of
                           (None, w2) \<Rightarrow> (Raised PyEOFError, c\<lparr>username := PStr u\<rparr>, w2)
                         | (Some user_ok, w2) \<Rightarrow>
                             (if lower (strip user_ok) = ''n''
                              then request_credentials d (c\<lparr>username := PStr u\<rparr>) w2 True False
                              else (Done, c\<lparr>username := PStr u\<rparr>, w2))))
                 else (Done, c, w0)))"
      using Suc
      by (auto simp: P_def Let_def py_input_def print_def split: list.splits)
  qed (auto simp: P_def py_input_def getpass_def split: list.splits)
  then show ?case by (simp add: P_def)
qed

lemma get_credential_if_present_config:
  "config (get_credential_if_present c line cred) = config c"
  by (simp add: get_credential_if_present_def Let_def)

lemma foldl_config:
  assumes "\<And>c x. config (f c x) = config c"
  shows "config (foldl f c xs) = config c"
  by (induction xs arbitrary: c) (simp_all add: assms)

lemma read_credentials_keeps:
  "read_credentials c w cfg = (ou, c', w') \<Longrightarrow> w' = w \<and> config c' = config c"
  by (auto simp: read_credentials_def foldl_config get_credential_if_present_config
           split: option.splits node.splits)

lemma expand_config_keeps:
  "\<exists>c1 p. expand_config c w = (Done, c1, w) \<and> config c1 = Some p"
proof (cases "config c")
  case None
  then show ?thesis by (simp add: expand_config_def)
next
  case (Some cfg)
  show ?thesis
    unfolding expand_config_Some[OF Some] by simp
qed

lemma parents_nonempty:
  assumes "tail p \<noteq> []"
  shows "parents p = parent p # parents (parent p)"
proof -
  from assms obtain t x where t: "tail p = t @ [x]"
    by (metis append_butlast_last_id)
  have "map (\<lambda>n. PosixPath (root p) (take n (t @ [x]))) (rev [0..<length t]) =
        map (\<lambda>n. PosixPath (root p) (take n t)) (rev [0..<length t])"
    by (rule map_cong) auto
  then show ?thesis
    by (simp add: parents_def parent_def t)
qed

lemma not_own_parent: "p \<notin> set (parents p)"
proof
  assume "p \<in> set (parents p)"
  then obtain n where n: "n < length (tail p)" and eq: "p = PosixPath (root p) (take n (tail p))"
    unfolding set_parents by blast
  from arg_cong[OF eq, of tail] have "tail p = take n (tail p)"
    by (simp only: path.sel)
  from arg_cong[OF this, of length] have "length (tail p) = min (length (tail p)) n"
    by (simp only: length_take)
  with n show False by simp
qed

lemma mkdir_all:
  "d \<in> set ds \<Longrightarrow> foldr (\<lambda>d f. f(d \<mapsto> Dir)) ds f0 d = Some Dir"
  by (induction ds) auto

lemma write_credentials_Done:
  assumes "write_credentials c w = (Done, c', w')" and "config c = Some cfg"
  shows "c' = c"
    and "fs w' cfg = Some (File (''username='' @ py_str (username c) @ ''\<newline>''
                                 @ ''password='' @ py_str (password c) @ ''\<newline>''))"
    and "list_all (\<lambda>d. node_at w' d = Some Dir) (parents cfg)"
proof -
  have wc: "write_credentials c w =
      (case mkdir_parents w (parent cfg) of
         None \<Rightarrow> (Raised (PyOSError ''FileExistsError''), c, w)
       | Some w1 \<Rightarrow>
           (if node_at w1 cfg = Some Dir then (Raised (PyOSError ''IsADirectoryError''), c, w1)
            else (Done, c,
                  w1\<lparr>fs := (fs w1)(cfg \<mapsto> File (''username='' @ py_str (username c) @ ''\<newline>''
                                          @ ''password='' @ py_str (password c) @ ''\<newline>''))\<rparr>)))"
    by (simp add: write_credentials_def assms(2))
  obtain w1 where w1: "mkdir_parents w (parent cfg) = Some w1"
    using assms(1) unfolding wc by (cases "mkdir_parents w (parent cfg)") simp_all
  have nd: "node_at w1 cfg \<noteq> Some Dir"
    using assms(1) unfolding wc w1 by (cases "node_at w1 cfg = Some Dir") simp_all
  have r: "(Done, c,
                  w1\<lparr>fs := (fs w1)(cfg \<mapsto> File (''username='' @ py_str (username c) @ ''\<newline>''
                                          @ ''password='' @ py_str (password c) @ ''\<newline>''))\<rparr>) = (Done, c', w')"
    using assms(1) nd unfolding wc w1 by auto
  have c': "c' = c"
    using r unfolding prod.inject by blast
  have w': "w' = w1\<lparr>fs := (fs w1)(cfg \<mapsto> File (''username='' @ py_str (username c) @ ''\<newline>''
                                              @ ''password='' @ py_str (password c) @ ''\<newline>''))\<rparr>"
    using r unfolding prod.inject by blast
  show "c' = c" by (rule c')
  show "fs w' cfg = Some (File (''username='' @ py_str (username c) @ ''\<newline>''
                                 @ ''password='' @ py_str (password c) @ ''\<newline>''))"
    by (simp add: w')
  from nd have t: "tail cfg \<noteq> []"
    by (auto simp: node_at_def)
  from w1 have f1: "fs w1 = foldr (\<lambda>d f. f(d \<mapsto> Dir)) (parent cfg # parents (parent cfg)) (fs w)"
    by (auto simp: mkdir_parents_def split: if_splits)
  have "node_at w' d = Some Dir" if "d \<in> set (parents cfg)" for d
  proof -
    from that not_own_parent[of cfg] have ne: "d \<noteq> cfg" by auto
    from that have "d \<in> set (parent cfg # parents (parent cfg))"
      by (simp only: parents_nonempty[OF t])
    then have "fs w1 d = Some Dir"
      unfolding f1 by (rule mkdir_all)
    with ne show ?thesis
      by (simp add: node_at_def w')
  qed
  then show "list_all (\<lambda>d. node_at w' d = Some Dir) (parents cfg)"
    by (simp add: list_all_iff)
qed

lemma exists_fs: "fs w1 = fs w2 \<Longrightarrow> exists w1 p = exists w2 p"
  by (simp add: exists_def node_at_def)

lemma get_credentials_Suc_Done:
  assumes "get_credentials (Suc d) c w save ov hl = (Done, c', w')"
  obtains c3 w3 cfg where
    "config c3 = Some cfg"
    "fs w3 = fs w \<or> (\<exists>c2. get_credentials d c2 w True False False = (Done, c3, w3))"
    "if save \<and> \<not> exists w3 cfg \<or> ov
     then write_credentials c3 (print w3 (''Writing out credentials to '' @ path_str cfg)) = (Done, c', w')
     else c' = c3 \<and> w' = w3"
proof -
  from assms[unfolded get_credentials.simps] obtain st3 where
    mid: "and_then (expand_config c w)
          (\<lambda>(c1, w1).
             if \<not> truthy (username c1) \<or> \<not> truthy (password c1) then
               (case config c1 of
                  None \<Rightarrow> (Raised (PyAttributeError ''NoneType''), c1, w1)
                | Some cfg \<Rightarrow>
                    (if exists w1 cfg then
                       and_then (read_credentials c1 w1 cfg)
                         (\<lambda>(c2, w2). get_credentials d c2 w2 True False False)
                     else if hl then
                       (Raised (PySystemExit 1), c1,
                        print w1 (''Config file '' @ [CHR 0x27] @ path_str cfg @ [CHR 0x27]
                          @ '' is missing variables\<newline>It should look like this:\<newline>''
                          @ ''username=youruser\<newline>password=yourpass\<newline>\<newline>''
                          @ ''Or you need to pass in a username and/or password at Scripter instantiation.''))
                     else
                       request_credentials d c1
                         (print w1 (''Requested config not found ('' @ path_str cfg
                            @ '').\<newline>Gathering credentials...''))
                         False False))
             else (Done, c1, w1)) = (Done, st3)"
    and fin: "(\<lambda>(c1, w1).
          case config c1 of
            None \<Rightarrow> (Raised (PyAttributeError ''NoneType''), c1, w1)
          | Some cfg \<Rightarrow>
              (if save \<and> \<not> exists w1 cfg \<or> ov
               then write_credentials c1 (print w1 (''Writing out credentials to '' @ path_str cfg))
               else (Done, c1, w1))) st3 = (Done, c', w')"
    by (rule and_then_Done) (rule that)
  obtain c3 w3 where st3: "st3 = (c3, w3)"
    by (cases st3)
  from fin obtain cfg where cfg: "config c3 = Some cfg"
    unfolding st3 by (cases "config c3") simp_all
  from fin have w: "if save \<and> \<not> exists w3 cfg \<or> ov
     then write_credentials c3 (print w3 (''Writing out credentials to '' @ path_str cfg)) = (Done, c', w')
     else c' = c3 \<and> w' = w3"
    unfolding st3 by (auto simp: cfg split: if_splits)
  obtain c1 p where e: "expand_config c w = (Done, c1, w)" and p: "config c1 = Some p"
    using expand_config_keeps by blast
  have "fs w3 = fs w \<or> (\<exists>c2. get_credentials d c2 w True False False = (Done, c3, w3))"
  proof (cases "\<not> truthy (username c1) \<or> \<not> truthy (password c1)")
    case False
    with mid show ?thesis
      unfolding e st3 by (simp add: and_then_def)
  next
    case missing: True
    show ?thesis
    proof (cases "exists w p")
      case True
      with mid missing p
      have "and_then (read_credentials c1 w p)
              (\<lambda>(c2, w2). get_credentials d c2 w2 True False False) = (Done, c3, w3)"
        unfolding e st3 by (simp add: and_then_def)
      then obtain st2 where r: "read_credentials c1 w p = (Done, st2)"
        and i: "(\<lambda>(c2, w2). get_credentials d c2 w2 True False False) st2 = (Done, c3, w3)"
        by (rule and_then_Done) (rule that)
      obtain c2 w2 where st2: "st2 = (c2, w2)" by (cases st2)
      from r have "w2 = w"
        unfolding st2 by (rule read_credentials_keeps[THEN conjunct1])
      with i show ?thesis
        unfolding st2 by auto
    next
      case False
      with mid missing p
      have "\<not> hl" and rq: "request_credentials d c1
                         (print w (''Requested config not found ('' @ path_str p
                            @ '').\<newline>Gathering credentials...''))
                         False False = (Done, c3, w3)"
        unfolding e st3 by (auto simp add: and_then_def split: if_splits)
      from request_credentials_keeps[of d c1 _ False False] rq
      have "fs w3 = fs w"
        by (metis print_fs snd_conv)
      then show ?thesis ..
    qed
  qed
  then show ?thesis
    using cfg w by (intro that[of c3 cfg w3])
qed

text \<open>
  Claim C7, amended. When credential resolution returns, with \<open>cfg\<close> the resolved config
  path, and the caller asked to overwrite, or asked to save and the file did not exist
  before the call, then the file holds the two lines \<^verbatim>\<open>username=...\<close> and
  \<^verbatim>\<open>password=...\<close> of the resolved credentials, and nothing else, and every parent
  directory of the path exists.
\<close>

theorem credentials_written:
  assumes "get_credentials depth c w save overwrite headless = (Done, c', w')"
    and "config c' = Some cfg"
    and "overwrite \<or> (save \<and> \<not> exists w cfg)"
  shows "fs w' cfg = Some (File (''username='' @ py_str (username c') @ ''\<newline>''
                                 @ ''password='' @ py_str (password c') @ ''\<newline>'')) \<and>
         list_all (\<lambda>d. node_at w' d = Some Dir) (parents cfg)"
  using assms
proof (induction depth arbitrary: c w save overwrite headless c' w')
  case 0
  then show ?case by simp
next
  case (Suc d)
  from Suc.prems(1) obtain c3 w3 cfg3 where
    cfg3: "config c3 = Some cfg3"
    and mid: "fs w3 = fs w \<or> (\<exists>c2. get_credentials d c2 w True False False = (Done, c3, w3))"
    and fin: "if save \<and> \<not> exists w3 cfg3 \<or> overwrite
     then write_credentials c3 (print w3 (''Writing out credentials to '' @ path_str cfg3)) = (Done, c', w')
     else c' = c3 \<and> w' = w3"
    by (rule get_credentials_Suc_Done)
  show ?case
  proof (cases "save \<and> \<not> exists w3 cfg3 \<or> overwrite")
    case True
    with fin have wr: "write_credentials c3 (print w3 (''Writing out credentials to '' @ path_str cfg3)) = (Done, c', w')"
      by simp
    note r = write_credentials_Done[OF wr cfg3]
    from r(1) cfg3 Suc.prems(2) have "cfg3 = cfg" by simp
    with r show ?thesis by simp
  next
    case False
    with fin have same: "c' = c3" "w' = w3" by simp_all
    with cfg3 Suc.prems(2) have eq: "cfg3 = cfg" by simp
    from False Suc.prems(3) eq have ex: "save" "\<not> exists w cfg" "exists w3 cfg"
      by auto
    from ex(2,3) have "fs w3 \<noteq> fs w"
      using exists_fs[of w3 w cfg] by auto
    with mid obtain c2 where "get_credentials d c2 w True False False = (Done, c3, w3)"
      by blast
    from Suc.IH[OF this] cfg3 eq ex(2) show ?thesis
      unfolding same by simp
  qed
qed

lemma example_new_path:
  "Path ''/home/alice/new/hpc_config.txt'' = PosixPath ''/'' [''home'', ''alice'', ''new'', ''hpc_config.txt'']"
  by (simp add: Path_def path_root_def)

lemma example_new_missing:
  "\<not> exists example_world (PosixPath ''/'' [''home'', ''alice'', ''new'', ''hpc_config.txt''])"
  by (simp add: exists_def node_at_def example_world_def example_config)

lemma example_new_written:
  "fst (get_credentials (Suc 0)
     \<lparr>username = PStr ''alice'', password = PStr ''secret'', group = PStr ''1234'',
      site = PStr ''hpc.uncc.edu'',
      config = Some (PosixPath ''/'' [''home'', ''alice'', ''new'', ''hpc_config.txt''])\<rparr>
     example_world True False False) = Done"
  "fst (snd (get_credentials (Suc 0)
     \<lparr>username = PStr ''alice'', password = PStr ''secret'', group = PStr ''1234'',
      site = PStr ''hpc.uncc.edu'',
      config = Some (PosixPath ''/'' [''home'', ''alice'', ''new'', ''hpc_config.txt''])\<rparr>
     example_world True False False)) =
     \<lparr>username = PStr ''alice'', password = PStr ''secret'', group = PStr ''1234'',
      site = PStr ''hpc.uncc.edu'',
      config = Some (PosixPath ''/'' [''home'', ''alice'', ''new'', ''hpc_config.txt''])\<rparr>"
  "fs (snd (snd (get_credentials (Suc 0)
     \<lparr>username = PStr ''alice'', password = PStr ''secret'', group = PStr ''1234'',
      site = PStr ''hpc.uncc.edu'',
      config = Some (PosixPath ''/'' [''home'', ''alice'', ''new'', ''hpc_config.txt''])\<rparr>
     example_world True False False)))
     (PosixPath ''/'' [''home'', ''alice'', ''new'', ''hpc_config.txt'']) =
   Some (File ''username=alice\<newline>password=secret\<newline>'')"
proof -
  have n: "Path ''~'' \<notin> set (parents (PosixPath ''/'' [''home'', ''alice'', ''new'', ''hpc_config.txt'']))"
    by (simp add: tilde_in_parents)
  have par: "parents (PosixPath ''/'' [''home'', ''alice'', ''new'']) =
     [PosixPath ''/'' [''home'', ''alice''], PosixPath ''/'' [''home''], PosixPath ''/'' []]"
    by (simp add: parents_def upt_rec)
  have g: "get_credentials (Suc 0)
     \<lparr>username = PStr ''alice'', password = PStr ''secret'', group = PStr ''1234'',
      site = PStr ''hpc.uncc.edu'',
      config = Some (PosixPath ''/'' [''home'', ''alice'', ''new'', ''hpc_config.txt''])\<rparr>
     example_world True False False =
     write_credentials \<lparr>username = PStr ''alice'', password = PStr ''secret'', group = PStr ''1234'',
      site = PStr ''hpc.uncc.edu'',
      config = Some (PosixPath ''/'' [''home'', ''alice'', ''new'', ''hpc_config.txt''])\<rparr>
      (print example_world (''Writing out credentials to '' @
          path_str (PosixPath ''/'' [''home'', ''alice'', ''new'', ''hpc_config.txt''])))"
    by (simp add: expand_config_plain[OF _ n] and_then_def example_new_missing)
  show "fst (get_credentials (Suc 0)
     \<lparr>username = PStr ''alice'', password = PStr ''secret'', group = PStr ''1234'',
      site = PStr ''hpc.uncc.edu'',
      config = Some (PosixPath ''/'' [''home'', ''alice'', ''new'', ''hpc_config.txt''])\<rparr>
     example_world True False False) = Done"
    unfolding g
    by (simp add: write_credentials_def parent_def mkdir_parents_def par is_file_def node_at_def
        print_def example_world_def example_config)
  show "fst (snd (get_credentials (Suc 0)
     \<lparr>username = PStr ''alice'', password = PStr ''secret'', group = PStr ''1234'',
      site = PStr ''hpc.uncc.edu'',
      config = Some (PosixPath ''/'' [''home'', ''alice'', ''new'', ''hpc_config.txt''])\<rparr>
     example_world True False False)) =
     \<lparr>username = PStr ''alice'', password = PStr ''secret'', group = PStr ''1234'',
      site = PStr ''hpc.uncc.edu'',
      config = Some (PosixPath ''/'' [''home'', ''alice'', ''new'', ''hpc_config.txt''])\<rparr>"
    unfolding g
    by (simp add: write_credentials_def parent_def mkdir_parents_def par is_file_def node_at_def
        print_def example_world_def example_config)
  show "fs (snd (snd (get_credentials (Suc 0)
     \<lparr>username = PStr ''alice'', password = PStr ''secret'', group = PStr ''1234'',
      site = PStr ''hpc.uncc.edu'',
      config = Some (PosixPath ''/'' [''home'', ''alice'', ''new'', ''hpc_config.txt''])\<rparr>
     example_world True False False)))
     (PosixPath ''/'' [''home'', ''alice'', ''new'', ''hpc_config.txt'']) =
   Some (File ''username=alice\<newline>password=secret\<newline>'')"
    unfolding g
    by (simp add: write_credentials_def parent_def mkdir_parents_def par is_file_def node_at_def
        print_def example_world_def example_config)
qed

theorem credentials_written_witness:
  "fs (snd (snd (get_credentials (Suc 0)
     \<lparr>username = PStr ''alice'', password = PStr ''secret'', group = PStr ''1234'',
      site = PStr ''hpc.uncc.edu'',
      config = Some (PosixPath ''/'' [''home'', ''alice'', ''new'', ''hpc_config.txt''])\<rparr>
     example_world True False False)))
     (PosixPath ''/'' [''home'', ''alice'', ''new'', ''hpc_config.txt'']) =
     Some (File ''username=alice\<newline>password=secret\<newline>'') \<and>
   list_all (\<lambda>d. node_at (snd (snd (get_credentials (Suc 0)
     \<lparr>username = PStr ''alice'', password = PStr ''secret'', group = PStr ''1234'',
      site = PStr ''hpc.uncc.edu'',
      config = Some (PosixPath ''/'' [''home'', ''alice'', ''new'', ''hpc_config.txt''])\<rparr>
     example_world True False False))) d = Some Dir)
     [PosixPath ''/'' [''home'', ''alice'', ''new''], PosixPath ''/'' [''home'', ''alice''],
      PosixPath ''/'' [''home''], PosixPath ''/'' []]"
proof -
  let ?c = "\<lparr>username = PStr ''alice'', password = PStr ''secret'', group = PStr ''1234'',
      site = PStr ''hpc.uncc.edu'',
      config = Some (PosixPath ''/'' [''home'', ''alice'', ''new'', ''hpc_config.txt''])\<rparr>"
  let ?r = "get_credentials (Suc 0) ?c example_world True False False"
  have r: "?r = (Done, ?c, snd (snd ?r))"
    using example_new_written(1,2) by (metis prod.collapse)
  have c: "config ?c = Some (PosixPath ''/'' [''home'', ''alice'', ''new'', ''hpc_config.txt''])"
    by simp
  have h: "False \<or> (True \<and> \<not> exists example_world (PosixPath ''/'' [''home'', ''alice'', ''new'', ''hpc_config.txt'']))"
    using example_new_missing by simp
  have par: "parents (PosixPath ''/'' [''home'', ''alice'', ''new'', ''hpc_config.txt'']) =
     [PosixPath ''/'' [''home'', ''alice'', ''new''], PosixPath ''/'' [''home'', ''alice''],
      PosixPath ''/'' [''home''], PosixPath ''/'' []]"
    by (simp add: parents_def upt_rec)
  show ?thesis
    using credentials_written[OF r c h] unfolding par by simp
qed

lemma Scripter_world:
  "truthy cfg \<Longrightarrow> as_path cfg = Some p \<Longrightarrow>
   snd (Scripter d w u pw st m g cfg) =
   snd (snd (get_credentials d \<lparr>username = u, password = pw, group = g, site = st, config = Some p\<rparr>
               w True False False))"
  by (simp add: Scripter_def split: prod.splits outcome.splits)

text \<open>
  Claim C7, as stated, fails on the content of the file: a Scripter constructed with all
  four credentials and a config path that does not exist writes the username and the
  password only; neither the group nor the site is in the file.
\<close>

theorem group_and_site_not_written:
  "fs (snd (Scripter (Suc 0) example_world (PStr ''alice'') (PStr ''secret'') (PStr ''hpc.uncc.edu'')
              ''sftp'' (PStr ''1234'') (PStr ''/home/alice/new/hpc_config.txt'')))
     (Path ''/home/alice/new/hpc_config.txt'') =
     Some (File ''username=alice\<newline>password=secret\<newline>'') \<and>
   \<not> contains ''1234'' ''username=alice\<newline>password=secret\<newline>'' \<and>
   \<not> contains ''hpc.uncc.edu'' ''username=alice\<newline>password=secret\<newline>''"
proof -
  have "fs (snd (Scripter (Suc 0) example_world (PStr ''alice'') (PStr ''secret'') (PStr ''hpc.uncc.edu'')
              ''sftp'' (PStr ''1234'') (PStr ''/home/alice/new/hpc_config.txt'')))
     (Path ''/home/alice/new/hpc_config.txt'') =
     Some (File ''username=alice\<newline>password=secret\<newline>'')"
  proof -
    have w: "snd (Scripter (Suc 0) example_world (PStr ''alice'') (PStr ''secret'') (PStr ''hpc.uncc.edu'')
                ''sftp'' (PStr ''1234'') (PStr ''/home/alice/new/hpc_config.txt'')) =
      snd (snd (get_credentials (Suc 0)
         \<lparr>username = PStr ''alice'', password = PStr ''secret'', group = PStr ''1234'',
          site = PStr ''hpc.uncc.edu'', config = Some (Path ''/home/alice/new/hpc_config.txt'')\<rparr>
         example_world True False False))"
      by (rule Scripter_world) simp_all
    show ?thesis
      unfolding w example_new_path by (rule example_new_written(3))
  qed
  moreover have "\<not> contains ''1234'' ''username=alice\<newline>password=secret\<newline>''"
    by simp
  moreover have "\<not> contains ''hpc.uncc.edu'' ''username=alice\<newline>password=secret\<newline>''"
    by simp
  ultimately show ?thesis by blast
qed

end
